theory Spec2Isabelle
  imports Main
begin

section \<open>Text\<close>

text \<open>
  A Python \<open>str\<close> is a sequence of Unicode code points.  A code point is modelled as a
  natural number and a text as a list of them; \<open>ustr\<close> reads an ASCII literal.  The
  backslash cannot be written inside a literal and appears as its code point \<open>92\<close>.
\<close>

type_synonym ustring = "nat list"

definition ustr :: "string \<Rightarrow> ustring" where
  "ustr = map of_char"

definition NL :: nat where "NL = 10"
definition BSLASH :: nat where "BSLASH = 92"
definition PERCENT :: nat where "PERCENT = 37"
definition LBRACE :: nat where "LBRACE = 123"
definition RBRACE :: nat where "RBRACE = 125"
definition LBRACKET :: nat where "LBRACKET = 91"
definition RBRACKET :: nat where "RBRACKET = 93"

text \<open>\<open>s.split(sep)\<close> for a separator of one character.\<close>

fun split_on :: "nat \<Rightarrow> ustring \<Rightarrow> ustring list" where
  "split_on sep [] = [[]]"
| "split_on sep (c # cs) =
     (if c = sep then [] # split_on sep cs
      else (case split_on sep cs of [] \<Rightarrow> [[c]] | l # ls \<Rightarrow> (c # l) # ls))"

text \<open>\<open>strip_prefix p s\<close>: the text after the literal \<open>p\<close> when \<open>s\<close> starts with it.\<close>

fun strip_prefix :: "ustring \<Rightarrow> ustring \<Rightarrow> ustring option" where
  "strip_prefix [] s = Some s"
| "strip_prefix (p # ps) [] = None"
| "strip_prefix (p # ps) (c # cs) = (if p = c then strip_prefix ps cs else None)"

section \<open>extract_figure_names\<close>

text \<open>
  The pattern of \<open>extract_figure_names\<close>, compiled by hand into a backtracking matcher:
  \<^verbatim>\<open>^(?!%).*\\includegraphics(?:\[.*?\])?\{(.*?)\}\<close> under \<open>re.MULTILINE\<close>.
  Every function is one node of the pattern together with what follows it, tries the
  alternatives in the order of Python's engine and returns the first success: the text
  of group 1 and the text left after the match.  The dot does not match a newline.
\<close>

text \<open>\<^verbatim>\<open>(.*?)\}\<close>: lazy, so the closing brace is tried before one more character.\<close>

fun group_lazy :: "ustring \<Rightarrow> (ustring \<times> ustring) option" where
  "group_lazy [] = None"
| "group_lazy (c # cs) =
     (if c = RBRACE then Some ([], cs)
      else if c = NL then None
      else map_option (\<lambda>(cap, rest). (c # cap, rest)) (group_lazy cs))"

text \<open>\<^verbatim>\<open>\{(.*?)\}\<close>\<close>

definition brace_group :: "ustring \<Rightarrow> (ustring \<times> ustring) option" where
  "brace_group s = (case s of [] \<Rightarrow> None | c # cs \<Rightarrow> if c = LBRACE then group_lazy cs else None)"

text \<open>
  \<^verbatim>\<open>.*?\]\<close> after an opening bracket, followed by the brace group: lazy, so the closing
  bracket and the rest of the pattern are tried first, and one more character is taken
  only when that fails.
\<close>

fun bracket_lazy :: "ustring \<Rightarrow> (ustring \<times> ustring) option" where
  "bracket_lazy [] = None"
| "bracket_lazy (c # cs) =
     (case (if c = RBRACKET then brace_group cs else None) of
        Some r \<Rightarrow> Some r
      | None \<Rightarrow> if c = NL then None else bracket_lazy cs)"

text \<open>\<^verbatim>\<open>(?:\[.*?\])?\{(.*?)\}\<close>: the optional group is greedy, so it is tried first.\<close>

definition options_group :: "ustring \<Rightarrow> (ustring \<times> ustring) option" where
  "options_group s =
     (case (case s of [] \<Rightarrow> None | c # cs \<Rightarrow> if c = LBRACKET then bracket_lazy cs else None) of
        Some r \<Rightarrow> Some r
      | None \<Rightarrow> brace_group s)"

text \<open>\<^verbatim>\<open>\\includegraphics(?:\[.*?\])?\{(.*?)\}\<close>: the directive at the head of \<open>s\<close>.\<close>

definition directive :: "ustring \<Rightarrow> (ustring \<times> ustring) option" where
  "directive s =
     (case strip_prefix (BSLASH # ustr ''includegraphics'') s of
        None \<Rightarrow> None
      | Some r \<Rightarrow> options_group r)"

text \<open>\<^verbatim>\<open>.*\<close> before the directive: greedy, so one more character is taken first.\<close>

fun greedy_dots :: "ustring \<Rightarrow> (ustring \<times> ustring) option" where
  "greedy_dots [] = directive []"
| "greedy_dots (c # cs) =
     (case (if c = NL then None else greedy_dots cs) of
        Some r \<Rightarrow> Some r
      | None \<Rightarrow> directive (c # cs))"

text \<open>
  The whole pattern at one position.  \<open>bol\<close> says whether the position is the start of
  the text or follows a newline (\<^verbatim>\<open>^\<close> under \<open>re.MULTILINE\<close>); \<^verbatim>\<open>(?!%)\<close> refuses a
  percent sign as the next character.
\<close>

definition match_here :: "bool \<Rightarrow> ustring \<Rightarrow> (ustring \<times> ustring) option" where
  "match_here bol s =
     (if \<not> bol then None
      else if (case s of [] \<Rightarrow> False | c # _ \<Rightarrow> c = PERCENT) then None
      else greedy_dots s)"

lemma group_lazy_shorter: "group_lazy s = Some (cap, rest) \<Longrightarrow> length rest < length s"
  by (induction s arbitrary: cap) (auto split: if_splits)

lemma brace_group_shorter: "brace_group s = Some (cap, rest) \<Longrightarrow> length rest < length s"
  by (auto simp: brace_group_def split: list.splits if_splits dest: group_lazy_shorter)

lemma bracket_lazy_shorter: "bracket_lazy s = Some (cap, rest) \<Longrightarrow> length rest < length s"
  by (induction s) (auto split: if_splits option.splits dest: brace_group_shorter)

lemma options_group_shorter: "options_group s = Some (cap, rest) \<Longrightarrow> length rest < length s"
  by (auto simp: options_group_def split: list.splits if_splits option.splits
      dest: brace_group_shorter bracket_lazy_shorter)

lemma strip_prefix_length: "strip_prefix p s = Some r \<Longrightarrow> length s = length p + length r"
  by (induction p s rule: strip_prefix.induct) (auto split: if_splits)

lemma directive_shorter: "directive s = Some (cap, rest) \<Longrightarrow> length rest < length s"
  by (auto simp: directive_def split: option.splits
      dest!: options_group_shorter strip_prefix_length)

lemma greedy_dots_shorter: "greedy_dots s = Some (cap, rest) \<Longrightarrow> length rest < length s"
  by (induction s) (auto split: if_splits option.splits dest: directive_shorter)

lemma match_here_shorter: "match_here bol s = Some (cap, rest) \<Longrightarrow> length rest < length s"
  by (auto simp: match_here_def split: if_splits dest: greedy_dots_shorter)

text \<open>
  \<open>re.findall\<close> with this pattern: the leftmost match from the current position, then
  on from the end of that match.  A match is never empty and ends with a closing brace,
  so the position after it is not the start of a line.
\<close>

function findall :: "bool \<Rightarrow> ustring \<Rightarrow> ustring list" where
  "findall bol s =
     (case match_here bol s of
        Some (cap, rest) \<Rightarrow> cap # findall False rest
      | None \<Rightarrow> (case s of [] \<Rightarrow> [] | c # cs \<Rightarrow> findall (c = NL) cs))"
  by pat_completeness auto
termination
  by (relation "measure (\<lambda>(bol, s). length s)") (auto dest: match_here_shorter)

definition extract_figure_names :: "ustring \<Rightarrow> ustring list" where
  "extract_figure_names content = findall True content"

section \<open>Lines and directives of a document\<close>

text \<open>The lines of a text, as Python's \<open>content.split('\n')\<close> gives them.\<close>

abbreviation split_lines :: "ustring \<Rightarrow> ustring list" where
  "split_lines \<equiv> split_on NL"

text \<open>Every position of a text, as the text from that position on, left to right.\<close>

fun tails :: "'a list \<Rightarrow> 'a list list" where
  "tails [] = [[]]"
| "tails (x # xs) = (x # xs) # tails xs"

text \<open>
  The directives on a line: the path argument of the directive at each position of the line
  where one stands, left to right.
\<close>

definition line_directives :: "ustring \<Rightarrow> ustring list" where
  "line_directives l = List.map_filter (\<lambda>t. map_option fst (directive t)) (tails l)"

text \<open>A comment line: its first character is the percent sign.\<close>

definition is_comment_line :: "ustring \<Rightarrow> bool" where
  "is_comment_line l = (case l of [] \<Rightarrow> False | c # _ \<Rightarrow> c = PERCENT)"

text \<open>What the pattern gives when it is tried at the start of a line.\<close>

definition line_capture :: "ustring \<Rightarrow> ustring list" where
  "line_capture l = (case match_here True l of None \<Rightarrow> [] | Some (cap, rest) \<Rightarrow> [cap])"

subsection \<open>A match stays inside its line\<close>

definition push :: "ustring \<Rightarrow> (ustring \<times> ustring) option \<Rightarrow> (ustring \<times> ustring) option" where
  "push t = map_option (\<lambda>(cap, r). (cap, r @ t))"

lemma push_simps [simp]: "push t None = None" "push t (Some (cap, r)) = Some (cap, r @ t)"
  by (simp_all add: push_def)

lemma NL_consts [simp]: "NL \<noteq> RBRACE" "NL \<noteq> LBRACE" "NL \<noteq> RBRACKET" "NL \<noteq> LBRACKET" "NL \<noteq> PERCENT" "NL \<noteq> BSLASH"
  by (simp_all add: NL_def RBRACE_def LBRACE_def RBRACKET_def LBRACKET_def PERCENT_def BSLASH_def)

lemma group_lazy_local: "NL \<notin> set l \<Longrightarrow> group_lazy (l @ NL # t) = push (NL # t) (group_lazy l)"
  by (induction l) (auto simp: push_def option.map_comp comp_def split: prod.splits intro!: option.map_cong)

lemma brace_group_local: "NL \<notin> set l \<Longrightarrow> brace_group (l @ NL # t) = push (NL # t) (brace_group l)"
  by (cases l) (auto simp: brace_group_def group_lazy_local)

lemma bracket_lazy_local: "NL \<notin> set l \<Longrightarrow> bracket_lazy (l @ NL # t) = push (NL # t) (bracket_lazy l)"
  by (induction l) (auto simp: brace_group_local split: option.splits)

lemma options_group_local: "NL \<notin> set l \<Longrightarrow> options_group (l @ NL # t) = push (NL # t) (options_group l)"
proof -
  assume l: "NL \<notin> set l"
  have a: "(case l @ NL # t of [] \<Rightarrow> None | c # cs \<Rightarrow> if c = LBRACKET then bracket_lazy cs else None)
      = push (NL # t) (case l of [] \<Rightarrow> None | c # cs \<Rightarrow> if c = LBRACKET then bracket_lazy cs else None)"
    using l by (cases l) (simp_all add: bracket_lazy_local)
  show ?thesis
    unfolding options_group_def a brace_group_local[OF l]
    by (simp split: option.splits)
qed

lemma strip_prefix_local:
  "NL \<notin> set p \<Longrightarrow> strip_prefix p (l @ NL # t) = map_option (\<lambda>r. r @ NL # t) (strip_prefix p l)"
  by (induction p l rule: strip_prefix.induct) auto

lemma strip_prefix_suffix: "strip_prefix p s = Some r \<Longrightarrow> s = p @ r"
  by (induction p s rule: strip_prefix.induct) (auto split: if_splits)

lemma NL_lit: "NL \<notin> set (BSLASH # ustr ''includegraphics'')"
  by (simp add: ustr_def NL_def BSLASH_def)

lemma directive_local: "NL \<notin> set l \<Longrightarrow> directive (l @ NL # t) = push (NL # t) (directive l)"
  using strip_prefix_suffix[of "BSLASH # ustr ''includegraphics''" l]
  by (auto simp: directive_def strip_prefix_local[OF NL_lit] options_group_local split: option.splits)

lemma greedy_dots_local: "NL \<notin> set l \<Longrightarrow> greedy_dots (l @ NL # t) = push (NL # t) (greedy_dots l)"
proof (induction l)
  case Nil
  show ?case using directive_local[of "[]" t] by simp
next
  case (Cons c l)
  then show ?case using directive_local[of "c # l" t] by (auto split: option.splits)
qed


declare findall.simps [simp del]

lemma group_lazy_rest: "group_lazy s = Some (cap, rest) \<Longrightarrow> set rest \<subseteq> set s"
  by (induction s arbitrary: cap) (auto split: if_splits)

lemma brace_group_rest: "brace_group s = Some (cap, rest) \<Longrightarrow> set rest \<subseteq> set s"
  by (auto simp: brace_group_def split: list.splits if_splits dest: group_lazy_rest)

lemma bracket_lazy_rest: "bracket_lazy s = Some (cap, rest) \<Longrightarrow> set rest \<subseteq> set s"
  by (induction s) (auto split: if_splits option.splits dest: brace_group_rest)

lemma options_group_rest: "options_group s = Some (cap, rest) \<Longrightarrow> set rest \<subseteq> set s"
  by (auto simp: options_group_def split: list.splits if_splits option.splits
      dest!: brace_group_rest bracket_lazy_rest)

lemma directive_rest: "directive s = Some (cap, rest) \<Longrightarrow> set rest \<subseteq> set s"
  by (auto simp: directive_def split: option.splits
      dest!: options_group_rest strip_prefix_suffix)

lemma greedy_dots_rest: "greedy_dots s = Some (cap, rest) \<Longrightarrow> set rest \<subseteq> set s"
  by (induction s) (auto split: if_splits option.splits dest!: directive_rest)

lemma match_here_rest: "match_here bol s = Some (cap, rest) \<Longrightarrow> set rest \<subseteq> set s"
  by (auto simp: match_here_def split: if_splits dest: greedy_dots_rest)

lemma match_here_local:
  assumes "NL \<notin> set l"
  shows "match_here bol (l @ NL # t) = push (NL # t) (match_here bol l)"
proof -
  have "(case l @ NL # t of [] \<Rightarrow> False | c # _ \<Rightarrow> c = PERCENT)
      = (case l of [] \<Rightarrow> False | c # _ \<Rightarrow> c = PERCENT)"
    by (cases l) simp_all
  then show ?thesis
    unfolding match_here_def by (simp add: greedy_dots_local[OF assms])
qed

lemma findall_False_line: "NL \<notin> set l \<Longrightarrow> findall False (l @ NL # t) = findall True t"
  by (induction l) (simp_all add: findall.simps[of False] match_here_def)

lemma findall_False_last: "NL \<notin> set l \<Longrightarrow> findall False l = []"
  by (induction l) (simp_all add: findall.simps[of False] match_here_def)

lemma findall_True_line:
  assumes "NL \<notin> set l"
  shows "findall True (l @ NL # t) = line_capture l @ findall True t"
proof (cases "match_here True l")
  case None
  then have "match_here True (l @ NL # t) = None"
    by (simp add: match_here_local[OF assms])
  then have "findall True (l @ NL # t) = findall True t"
    using assms by (cases l) (simp_all add: findall.simps[of True] findall_False_line)
  then show ?thesis using None by (simp add: line_capture_def)
next
  case (Some a)
  obtain cap rest where a: "a = (cap, rest)" by (cases a)
  have "NL \<notin> set rest" using match_here_rest[of True l cap rest] Some a assms by auto
  then show ?thesis
    using Some a by (simp add: findall.simps[of True "l @ NL # t"] match_here_local[OF assms]
        line_capture_def findall_False_line)
qed

lemma findall_True_last:
  assumes "NL \<notin> set l"
  shows "findall True l = line_capture l"
proof (cases "match_here True l")
  case None
  then have "findall True l = []"
    using assms by (cases l) (simp_all add: findall.simps[of True] findall_False_last)
  then show ?thesis using None by (simp add: line_capture_def)
next
  case (Some a)
  obtain cap rest where a: "a = (cap, rest)" by (cases a)
  have "NL \<notin> set rest" using match_here_rest[of True l cap rest] Some a assms by auto
  then show ?thesis
    using Some a by (simp add: findall.simps[of True l] line_capture_def findall_False_last)
qed

lemma split_lines_line: "NL \<notin> set l \<Longrightarrow> split_lines (l @ NL # t) = l # split_lines t"
  by (induction l) auto

lemma split_lines_last: "NL \<notin> set l \<Longrightarrow> split_lines l = [l]"
  by (induction l) auto

lemma findall_lines: "findall True s = concat (map line_capture (split_lines s))"
proof (induction s rule: length_induct)
  case (1 s)
  show ?case
  proof (cases "NL \<in> set s")
    case False
    then show ?thesis by (simp add: findall_True_last split_lines_last)
  next
    case True
    then obtain l t where s: "s = l @ NL # t" and l: "NL \<notin> set l"
      by (meson split_list_first)
    have "findall True t = concat (map line_capture (split_lines t))"
      using 1 s by simp
    then show ?thesis
      by (simp add: s findall_True_line[OF l] split_lines_line[OF l])
  qed
qed

lemma split_lines_no_NL: "l \<in> set (split_lines s) \<Longrightarrow> NL \<notin> set l"
  by (induction s arbitrary: l) (auto split: if_splits list.splits)

text \<open>The last directive on a line, as a list of at most one entry.\<close>

definition last_directive :: "ustring \<Rightarrow> ustring list" where
  "last_directive l = (case line_directives l of [] \<Rightarrow> [] | d # ds \<Rightarrow> [last (d # ds)])"

lemma line_directives_Cons:
  "line_directives (c # cs) = (case directive (c # cs) of None \<Rightarrow> [] | Some (cap, r) \<Rightarrow> [cap]) @ line_directives cs"
  by (auto simp: line_directives_def List.map_filter_simps split: option.splits)

lemma directive_Nil: "directive [] = None"
  by (simp add: directive_def)

lemma line_directives_Nil: "line_directives [] = []"
  by (simp add: line_directives_def List.map_filter_simps directive_Nil)

lemma greedy_dots_last:
  "NL \<notin> set l \<Longrightarrow> (case greedy_dots l of None \<Rightarrow> [] | Some (cap, r) \<Rightarrow> [cap]) = last_directive l"
proof (induction l)
  case Nil
  then show ?case by (simp add: last_directive_def line_directives_Nil directive_Nil)
next
  case (Cons c l)
  then show ?case
    by (auto simp: last_directive_def line_directives_Cons split: option.splits list.splits)
qed

lemma line_capture_last:
  "NL \<notin> set l \<Longrightarrow> line_capture l = (if is_comment_line l then [] else last_directive l)"
  using greedy_dots_last[of l]
  by (auto simp: line_capture_def match_here_def is_comment_line_def split: list.splits option.splits)


section \<open>What extract_figure_names returns\<close>

text \<open>What one line contributes: nothing for a comment line, else its last directive.\<close>

definition figure_of_line :: "ustring \<Rightarrow> ustring list" where
  "figure_of_line l = (if is_comment_line l then [] else last_directive l)"

definition two_on_a_line :: ustring where
  "two_on_a_line = BSLASH # ustr ''includegraphics{a}'' @ BSLASH # ustr ''includegraphics[w]{b}''"

text \<open>The defining equations that evaluate the extractor on a concrete text.\<close>

lemmas char_defs = NL_def BSLASH_def PERCENT_def LBRACE_def RBRACE_def LBRACKET_def RBRACKET_def

lemmas extract_eval =
  ustr_def char_defs extract_figure_names_def findall.simps match_here_def directive_def
  options_group_def brace_group_def line_directives_def is_comment_line_def
  figure_of_line_def last_directive_def

lemma extract_lines:
  "extract_figure_names content = concat (map figure_of_line (split_lines content))"
proof -
  have "map line_capture (split_lines content) = map figure_of_line (split_lines content)"
    by (rule map_cong) (simp_all add: line_capture_last split_lines_no_NL figure_of_line_def)
  then show ?thesis by (simp only: extract_figure_names_def findall_lines)
qed

lemma last_directive_length: "length (last_directive l) \<le> 1"
  by (simp add: last_directive_def split: list.splits)

lemma split_lines_nonempty: "split_lines s \<noteq> []"
  by (induction s) (auto split: list.splits)

lemma split_lines_append: "split_lines (a @ NL # b) = split_lines a @ split_lines b"
proof (induction a)
  case Nil
  show ?case by simp
next
  case (Cons c a)
  then show ?case
    using split_lines_nonempty[of a] by (cases "split_lines a") auto
qed

lemma extract_append: "extract_figure_names (a @ NL # b) = extract_figure_names a @ extract_figure_names b"
  by (simp add: extract_lines split_lines_append)

text \<open>
  Claim C10.  \<open>extract_figure_names\<close> returns at most one figure reference for each line:
  the result is the concatenation, line by line, of what each line contributes; a line
  contributes at most one entry; and for a line that is not a comment line and holds
  several directives, the entry is the path of the last directive on the line (the greedy
  \<^verbatim>\<open>.*\<close> after the line anchor takes the longest prefix), the others being dropped.
\<close>

theorem extract_figure_names_one_per_line:
  "extract_figure_names content = concat (map figure_of_line (split_lines content))
   \<and> length (figure_of_line l) \<le> 1
   \<and> figure_of_line l = (if is_comment_line l then [] else case line_directives l of [] \<Rightarrow> [] | d # ds \<Rightarrow> [last (d # ds)])"
  using extract_lines[of content] last_directive_length[of l]
  by (simp add: figure_of_line_def last_directive_def)

theorem extract_figure_names_one_per_line_witness:
  "extract_figure_names two_on_a_line = concat (map figure_of_line (split_lines two_on_a_line))
   \<and> length (figure_of_line two_on_a_line) \<le> 1
   \<and> figure_of_line two_on_a_line = [ustr ''b'']
   \<and> line_directives two_on_a_line = [ustr ''a'', ustr ''b'']"
proof -
  have "line_directives two_on_a_line = [ustr ''a'', ustr ''b'']"
    by (simp add: two_on_a_line_def extract_eval)
  moreover have "\<not> is_comment_line two_on_a_line"
    by (simp add: two_on_a_line_def extract_eval)
  ultimately show ?thesis
    using extract_figure_names_one_per_line[of two_on_a_line two_on_a_line] by simp
qed

text \<open>
  Claim C1.  \<open>extract_figure_names\<close> is said to return one entry for every figure-inclusion
  directive on a line that does not begin with the percent sign, in document order.  The
  pattern of the code is anchored at the start of the line and takes the longest prefix
  before the directive, and its dot does not match a newline: of two directives on one
  line only the last is returned, and a directive whose bracketed options continue on the
  next line is not returned.
\<close>

theorem extract_figure_names_drops_directives:
  "extract_figure_names two_on_a_line = [ustr ''b'']
   \<and> extract_figure_names
         (BSLASH # ustr ''includegraphics[width=1,'' @ [NL] @ ustr '' height=2]{fig}'') = []"
  by (simp add: two_on_a_line_def extract_eval)

lemma comment_line_capture: "NL \<notin> set body \<Longrightarrow> extract_figure_names (PERCENT # body) = []"
  by (simp add: extract_figure_names_def findall_True_last line_capture_def match_here_def)

text \<open>
  Claim C9.  A line whose first character is the percent sign contributes no entry,
  whatever follows on the line: for a document made of a text \<open>pre\<close> that ends a line, the
  comment line, and a text \<open>post\<close> that starts with the end of that line, the result is the
  entries of \<open>pre\<close> followed by the entries of \<open>post\<close>.
\<close>

theorem comment_line_never_matched:
  assumes "pre = [] \<or> last pre = NL" and "NL \<notin> set body" and "post = [] \<or> hd post = NL"
  shows "extract_figure_names (pre @ PERCENT # body @ post)
         = extract_figure_names pre @ extract_figure_names post"
proof -
  have empty: "extract_figure_names [] = []"
    by (simp add: extract_figure_names_def findall.simps match_here_def directive_Nil)
  have line: "extract_figure_names (PERCENT # body @ post) = extract_figure_names post"
  proof (cases post)
    case Nil
    then show ?thesis using comment_line_capture[OF assms(2)] empty by simp
  next
    case (Cons c t)
    then have post: "post = NL # t" using assms(3) by simp
    have "extract_figure_names ((PERCENT # body) @ NL # t) = extract_figure_names t"
      unfolding extract_append using comment_line_capture[OF assms(2)] by simp
    moreover have "extract_figure_names ([] @ NL # t) = extract_figure_names t"
      unfolding extract_append using empty by simp
    ultimately show ?thesis using post by simp
  qed
  show ?thesis
  proof (cases "pre = []")
    case True
    then show ?thesis using line empty by simp
  next
    case False
    then have "pre = butlast pre @ [NL]" using assms(1) by (metis append_butlast_last_id)
    then obtain p where pre: "pre = p @ [NL]" ..
    have "extract_figure_names (p @ NL # (PERCENT # body @ post))
        = extract_figure_names p @ extract_figure_names (PERCENT # body @ post)"
      by (rule extract_append)
    moreover have "extract_figure_names (p @ NL # []) = extract_figure_names p @ extract_figure_names []"
      by (rule extract_append)
    ultimately show ?thesis using pre line empty by simp
  qed
qed

theorem comment_line_never_matched_witness:
  "extract_figure_names
     ((BSLASH # ustr ''includegraphics{a}'' @ [NL]) @ PERCENT # (ustr '' '' @ BSLASH # ustr ''includegraphics{hidden}'')
        @ (NL # BSLASH # ustr ''includegraphics{b}''))
   = [ustr ''a'', ustr ''b'']"
proof -
  have a: "extract_figure_names (BSLASH # ustr ''includegraphics{a}'' @ [NL]) = [ustr ''a'']"
    by (simp add: extract_eval)
  have b: "extract_figure_names (NL # BSLASH # ustr ''includegraphics{b}'') = [ustr ''b'']"
    by (simp add: extract_eval)
  have n: "NL \<notin> set (ustr '' '' @ BSLASH # ustr ''includegraphics{hidden}'')"
    by (simp add: extract_eval)
  show ?thesis
    using comment_line_never_matched[of "BSLASH # ustr ''includegraphics{a}'' @ [NL]"
        "ustr '' '' @ BSLASH # ustr ''includegraphics{hidden}''" "NL # BSLASH # ustr ''includegraphics{b}''", OF _ n]
    by (simp add: a b)
qed


section \<open>The rewriting of the search path and of the bibliography\<close>

text \<open>
  \<^verbatim>\<open>\s\<close> in a pattern over \<open>str\<close>: the code points Python takes for white space.
\<close>

definition is_space :: "nat \<Rightarrow> bool" where
  "is_space c \<longleftrightarrow>
     (9 \<le> c \<and> c \<le> 13) \<or> (28 \<le> c \<and> c \<le> 32) \<or> c = 133 \<or> c = 160 \<or> c = 5760
     \<or> (8192 \<le> c \<and> c \<le> 8202) \<or> c = 8232 \<or> c = 8233 \<or> c = 8239 \<or> c = 8287 \<or> c = 12288"

text \<open>
  The two patterns of the rewriting step, \<^verbatim>\<open>\\graphicspath\s*\{[^}]*\}\<close> and
  \<^verbatim>\<open>\\bibliography\s*\{[^}]*\}\<close>, differ in the command name only.  They hold no dot, so
  \<open>re.DOTALL\<close> changes nothing, and the class \<^verbatim>\<open>[^}]\<close> matches a newline.  Each function
  returns the text left after the first successful match, trying the alternatives in the
  engine's order.

  \<^verbatim>\<open>[^}]*\}\<close>: greedy.
\<close>

fun braced_arg :: "ustring \<Rightarrow> ustring option" where
  "braced_arg [] = None"
| "braced_arg (c # cs) =
     (case (if c \<noteq> RBRACE then braced_arg cs else None) of
        Some r \<Rightarrow> Some r
      | None \<Rightarrow> if c = RBRACE then Some cs else None)"

text \<open>\<^verbatim>\<open>\s*\{[^}]*\}\<close>: greedy.\<close>

fun spaces_then_arg :: "ustring \<Rightarrow> ustring option" where
  "spaces_then_arg [] = None"
| "spaces_then_arg (c # cs) =
     (case (if is_space c then spaces_then_arg cs else None) of
        Some r \<Rightarrow> Some r
      | None \<Rightarrow> if c = LBRACE then braced_arg cs else None)"

text \<open>The whole pattern at the head of \<open>s\<close>, for the command \<open>name\<close>.\<close>

definition command_match :: "ustring \<Rightarrow> ustring \<Rightarrow> ustring option" where
  "command_match name s =
     (case strip_prefix name s of None \<Rightarrow> None | Some r \<Rightarrow> spaces_then_arg r)"

lemma braced_arg_shorter: "braced_arg s = Some r \<Longrightarrow> length r < length s"
  by (induction s) (auto split: if_splits option.splits)

lemma spaces_then_arg_shorter: "spaces_then_arg s = Some r \<Longrightarrow> length r < length s"
  by (induction s) (auto split: if_splits option.splits dest: braced_arg_shorter)

lemma command_match_shorter: "command_match name s = Some r \<Longrightarrow> length r < length s"
  by (auto simp: command_match_def split: option.splits
      dest!: spaces_then_arg_shorter strip_prefix_length)

text \<open>
  \<open>re.sub\<close> with such a pattern and a replacement text: every leftmost match, found from
  where the one before it ended, is replaced; the other characters are kept.  A match is
  never empty.
\<close>

function re_sub :: "ustring \<Rightarrow> ustring \<Rightarrow> ustring \<Rightarrow> ustring" where
  "re_sub name repl s =
     (case command_match name s of
        Some rest \<Rightarrow> repl @ re_sub name repl rest
      | None \<Rightarrow> (case s of [] \<Rightarrow> [] | c # cs \<Rightarrow> c # re_sub name repl cs))"
  by pat_completeness auto
termination
  by (relation "measure (\<lambda>(name, repl, s). length s)") (auto dest: command_match_shorter)

declare re_sub.simps [simp del]

text \<open>
  The two substitutions of the rewriting step.  The replacement template
  \<^verbatim>\<open>\\bibliography{References}\<close> stands for one backslash and the rest as written.
\<close>

definition strip_graphicspath :: "ustring \<Rightarrow> ustring" where
  "strip_graphicspath content = re_sub (BSLASH # ustr ''graphicspath'') [] content"

definition rewrite_bibliography :: "ustring \<Rightarrow> ustring" where
  "rewrite_bibliography content =
     re_sub (BSLASH # ustr ''bibliography'') (BSLASH # ustr ''bibliography{References}'') content"

text \<open>A text holds a directive when the pattern matches at one of its positions.\<close>

definition has_command :: "ustring \<Rightarrow> ustring \<Rightarrow> bool" where
  "has_command name s = list_ex (\<lambda>t. command_match name t \<noteq> None) (tails s)"

text \<open>A directive starts inside \<open>pre\<close> when \<open>pre\<close> is followed by \<open>rest\<close>.\<close>

definition command_starts_in :: "ustring \<Rightarrow> ustring \<Rightarrow> ustring \<Rightarrow> bool" where
  "command_starts_in name pre rest = list_ex (\<lambda>t. t \<noteq> [] \<and> command_match name (t @ rest) \<noteq> None) (tails pre)"

lemma has_command_Cons:
  "has_command name (c # cs) \<longleftrightarrow> command_match name (c # cs) \<noteq> None \<or> has_command name cs"
  by (simp add: has_command_def)

lemma re_sub_unchanged: "\<not> has_command name s \<Longrightarrow> re_sub name repl s = s"
proof (induction s)
  case Nil
  then show ?case by (simp add: re_sub.simps[of _ _ "[]"] has_command_def)
next
  case (Cons c s)
  then show ?case by (simp add: re_sub.simps[of _ _ "c # s"] has_command_Cons)
qed

lemma command_starts_in_Cons:
  "command_starts_in name (c # cs) rest \<longleftrightarrow>
     command_match name (c # cs @ rest) \<noteq> None \<or> command_starts_in name cs rest"
  by (simp add: command_starts_in_def)

lemma re_sub_prefix:
  "\<not> command_starts_in name pre rest \<Longrightarrow> re_sub name repl (pre @ rest) = pre @ re_sub name repl rest"
proof (induction pre)
  case Nil
  then show ?case by simp
next
  case (Cons c pre)
  then show ?case by (simp add: re_sub.simps[of _ _ "c # pre @ rest"] command_starts_in_Cons)
qed

lemma strip_prefix_self: "strip_prefix p (p @ r) = Some r"
  by (induction p) auto

lemma braced_arg_exact: "RBRACE \<notin> set arg \<Longrightarrow> braced_arg (arg @ RBRACE # post) = Some post"
  by (induction arg) auto

lemma not_space_LBRACE: "\<not> is_space LBRACE"
  by (simp add: is_space_def LBRACE_def)

lemma spaces_then_arg_exact:
  "list_all is_space ws \<Longrightarrow> RBRACE \<notin> set arg \<Longrightarrow>
   spaces_then_arg (ws @ LBRACE # arg @ RBRACE # post) = Some post"
  by (induction ws) (simp_all add: braced_arg_exact not_space_LBRACE)

lemma command_match_exact:
  "list_all is_space ws \<Longrightarrow> RBRACE \<notin> set arg \<Longrightarrow>
   command_match name (name @ ws @ LBRACE # arg @ RBRACE # post) = Some post"
  by (simp add: command_match_def strip_prefix_self spaces_then_arg_exact)

lemma re_sub_occurrence:
  assumes "\<not> command_starts_in name pre (name @ ws @ LBRACE # arg @ RBRACE # post)"
    and "list_all is_space ws" and "RBRACE \<notin> set arg"
  shows "re_sub name repl (pre @ name @ ws @ LBRACE # arg @ RBRACE # post)
         = pre @ repl @ re_sub name repl post"
  using command_match_exact[OF assms(2,3), of name post]
  by (simp add: re_sub_prefix[OF assms(1)] re_sub.simps[of _ _ "name @ ws @ LBRACE # arg @ RBRACE # post"])


lemma re_sub_empty_length: "length (re_sub name [] s) \<le> length s"
proof (induction s rule: length_induct)
  case (1 s)
  show ?case
  proof (cases "command_match name s")
    case None
    show ?thesis
    proof (cases s)
      case Nil
      then show ?thesis using None by (simp add: re_sub.simps[of name "[]" "[]"])
    next
      case (Cons a list)
      then show ?thesis using None 1 by (simp add: re_sub.simps[of name "[]" "a # list"])
    qed
  next
    case (Some rest)
    then have "length rest < length s" by (rule command_match_shorter)
    then show ?thesis using 1 Some by (simp add: re_sub.simps[of name "[]" s]) (meson le_trans less_imp_le_nat)
  qed
qed

lemma re_sub_empty_shorter: "has_command name s \<Longrightarrow> length (re_sub name [] s) < length s"
proof (induction s)
  case Nil
  then show ?case by (simp add: has_command_def command_match_def split: option.splits)
      (metis command_match_def command_match_shorter less_nat_zero_code list.size(3) option.simps(5))
next
  case (Cons c s)
  show ?case
  proof (cases "command_match name (c # s)")
    case None
    then show ?thesis using Cons by (simp add: re_sub.simps[of name "[]" "c # s"] has_command_Cons)
  next
    case (Some rest)
    then have "length rest < length (c # s)" by (rule command_match_shorter)
    then show ?thesis
      using Some re_sub_empty_length[of name rest]
      by (simp add: re_sub.simps[of name "[]" "c # s"])
  qed
qed

lemmas sub_eval =
  ustr_def char_defs strip_graphicspath_def rewrite_bibliography_def re_sub.simps
  command_match_def is_space_def has_command_def command_starts_in_def

text \<open>
  Claim C3.  The bibliography rewrite replaces each occurrence of a bibliography directive
  by exactly \<^verbatim>\<open>\bibliography{References}\<close>: where a directive (the command, white space if
  any, and a braced argument on one or several lines) is the first to start in the text,
  the text before it is kept, the directive becomes the canonical one, and the rewrite goes
  on in the same way with the text after it.  A text that holds no such directive is
  returned unchanged.
\<close>

theorem rewrite_bibliography_each:
  "(\<not> command_starts_in (BSLASH # ustr ''bibliography'') pre
        ((BSLASH # ustr ''bibliography'') @ ws @ LBRACE # arg @ RBRACE # post)
      \<and> list_all is_space ws \<and> RBRACE \<notin> set arg
     \<longrightarrow> rewrite_bibliography (pre @ (BSLASH # ustr ''bibliography'') @ ws @ LBRACE # arg @ RBRACE # post)
         = pre @ (BSLASH # ustr ''bibliography{References}'') @ rewrite_bibliography post)
   \<and> (\<not> has_command (BSLASH # ustr ''bibliography'') doc \<longrightarrow> rewrite_bibliography doc = doc)"
  unfolding rewrite_bibliography_def
  using re_sub_occurrence[of "BSLASH # ustr ''bibliography''" pre ws arg post]
    re_sub_unchanged[of "BSLASH # ustr ''bibliography''" doc]
  by blast

theorem rewrite_bibliography_each_witness:
  "rewrite_bibliography
     (ustr ''see '' @ BSLASH # ustr ''bibliographystyle{plain} '' @ BSLASH # ustr ''bibliography''
        @ [32, NL] @ LBRACE # (ustr ''../Library,'' @ [NL] @ ustr ''refs'') @ RBRACE
        # (ustr '' and '' @ BSLASH # ustr ''bibliography{b}.''))
   = ustr ''see '' @ BSLASH # ustr ''bibliographystyle{plain} '' @ BSLASH # ustr ''bibliography{References}''
        @ ustr '' and '' @ BSLASH # ustr ''bibliography{References}.''
   \<and> rewrite_bibliography (ustr ''no '' @ BSLASH # ustr ''bibliographystyle{plain} here'')
       = ustr ''no '' @ BSLASH # ustr ''bibliographystyle{plain} here''"
proof -
  let ?pre = "ustr ''see '' @ BSLASH # ustr ''bibliographystyle{plain} ''"
  let ?ws = "[32, NL]"
  let ?arg = "ustr ''../Library,'' @ [NL] @ ustr ''refs''"
  let ?post = "ustr '' and '' @ BSLASH # ustr ''bibliography{b}.''"
  let ?doc = "ustr ''no '' @ BSLASH # ustr ''bibliographystyle{plain} here''"
  have h1: "\<not> command_starts_in (BSLASH # ustr ''bibliography'') ?pre
        ((BSLASH # ustr ''bibliography'') @ ?ws @ LBRACE # ?arg @ RBRACE # ?post)"
    by (simp add: sub_eval)
  have h2: "list_all is_space ?ws" by (simp add: sub_eval)
  have h3: "RBRACE \<notin> set ?arg" by (simp add: sub_eval)
  have h4: "\<not> has_command (BSLASH # ustr ''bibliography'') ?doc" by (simp add: sub_eval)
  have p: "rewrite_bibliography ?post = ustr '' and '' @ BSLASH # ustr ''bibliography{References}.''"
    by (simp add: sub_eval)
  show ?thesis
    using rewrite_bibliography_each[of ?pre ?ws ?arg ?post ?doc] h1 h2 h3 h4 p
    by simp
qed

definition joined :: ustring where
  "joined = BSLASH # ustr ''graphics'' @ BSLASH # ustr ''graphicspath{a}path{b}''"

text \<open>
  Claim C4 as stated fails: removing a directive joins the text on its two sides, which
  can be a directive that only a second application removes.
\<close>

theorem strip_graphicspath_twice_counterexample:
  "strip_graphicspath joined = BSLASH # ustr ''graphicspath{b}''
   \<and> strip_graphicspath (strip_graphicspath joined) = []
   \<and> strip_graphicspath (strip_graphicspath joined) \<noteq> strip_graphicspath joined"
  by (simp add: joined_def sub_eval)

text \<open>
  Claim C4, amended.  For every document text, applying the strip twice yields the same
  text as applying it once exactly when the first strip leaves no search-path directive
  behind.
\<close>

theorem strip_graphicspath_twice:
  "strip_graphicspath (strip_graphicspath content) = strip_graphicspath content
   \<longleftrightarrow> \<not> has_command (BSLASH # ustr ''graphicspath'') (strip_graphicspath content)"
  unfolding strip_graphicspath_def
  using re_sub_unchanged[of "BSLASH # ustr ''graphicspath''" "re_sub (BSLASH # ustr ''graphicspath'') [] content" "[]"]
    re_sub_empty_shorter[of "BSLASH # ustr ''graphicspath''" "re_sub (BSLASH # ustr ''graphicspath'') [] content"]
  by auto

definition with_search_path :: ustring where
  "with_search_path =
     BSLASH # ustr ''usepackage{graphicx}'' @ [NL] @ BSLASH # ustr ''graphicspath {{../Figures/}'' @ [NL]
     @ BSLASH # ustr ''begin{document}''"

theorem strip_graphicspath_twice_witness:
  "strip_graphicspath with_search_path
     = BSLASH # ustr ''usepackage{graphicx}'' @ [NL] @ [NL] @ BSLASH # ustr ''begin{document}''
   \<and> strip_graphicspath (strip_graphicspath with_search_path) = strip_graphicspath with_search_path"
proof -
  have a: "strip_graphicspath with_search_path
     = BSLASH # ustr ''usepackage{graphicx}'' @ [NL] @ [NL] @ BSLASH # ustr ''begin{document}''"
    by (simp add: with_search_path_def sub_eval)
  have h: "\<not> has_command (BSLASH # ustr ''graphicspath'') (strip_graphicspath with_search_path)"
    unfolding a by (simp add: sub_eval)
  show ?thesis using strip_graphicspath_twice[of with_search_path] h a by simp
qed


section \<open>str.replace and the auxiliary file\<close>

text \<open>
  \<open>s.replace(old, new)\<close>: every occurrence of \<open>old\<close>, found from left to right and from
  where the one before it ended, becomes \<open>new\<close>.  An empty \<open>old\<close> occurs before every
  character and at the end.
\<close>

function py_replace :: "ustring \<Rightarrow> ustring \<Rightarrow> ustring \<Rightarrow> ustring" where
  "py_replace old new s =
     (if old = [] then new @ concat (map (\<lambda>c. c # new) s)
      else case strip_prefix old s of
             Some rest \<Rightarrow> new @ py_replace old new rest
           | None \<Rightarrow> (case s of [] \<Rightarrow> [] | c # cs \<Rightarrow> c # py_replace old new cs))"
  by pat_completeness auto
termination
  by (relation "measure (\<lambda>(old, new, s). length s)") (auto dest: strip_prefix_length)

declare py_replace.simps [simp del]

text \<open>\<open>aux_file = main_name.replace(".tex", ".aux")\<close>\<close>

definition aux_file :: "ustring \<Rightarrow> ustring" where
  "aux_file main_name = py_replace (ustr ''.tex'') (ustr ''.aux'') main_name"

section \<open>Paths\<close>

definition SLASH :: nat where "SLASH = 47"
definition DOT :: nat where "DOT = 46"

text \<open>\<open>sep.join(xs)\<close>\<close>

fun join_with :: "ustring \<Rightarrow> ustring list \<Rightarrow> ustring" where
  "join_with sep [] = []"
| "join_with sep [x] = x"
| "join_with sep (x # y # ys) = x @ sep @ join_with sep (y # ys)"

text \<open>
  A \<open>pathlib\<close> path of the POSIX flavour, as \<open>pathlib\<close> holds it: the root (empty, one
  slash or two) and the components after it.  The drive is always empty.
\<close>

record ppath =
  root :: ustring
  parts :: "ustring list"

text \<open>
  \<open>Path(s)\<close>: a text that starts with exactly two slashes has the root \<open>//\<close>, one that
  starts with any other number of them the root \<open>/\<close>; empty components and the
  components \<open>.\<close> are dropped.
\<close>

definition path_root :: "ustring \<Rightarrow> ustring" where
  "path_root s =
     (if s \<noteq> [] \<and> hd s = SLASH
      then (if length (takeWhile (\<lambda>c. c = SLASH) s) = 2 then [SLASH, SLASH] else [SLASH])
      else [])"

definition Path :: "ustring \<Rightarrow> ppath" where
  "Path s = \<lparr>root = path_root s,
             parts = filter (\<lambda>x. x \<noteq> [] \<and> x \<noteq> [DOT])
                       (split_on SLASH (dropWhile (\<lambda>c. c = SLASH) s))\<rparr>"

text \<open>\<open>str(p)\<close>\<close>

definition path_str :: "ppath \<Rightarrow> ustring" where
  "path_str p =
     (if root p = [] \<and> parts p = [] then [DOT] else root p @ join_with [SLASH] (parts p))"

text \<open>\<open>p / key\<close> for a text \<open>key\<close>: an absolute \<open>key\<close> replaces \<open>p\<close>.\<close>

definition joinpath :: "ppath \<Rightarrow> ustring \<Rightarrow> ppath" where
  "joinpath p key =
     (let q = Path key in if root q \<noteq> [] then q else p\<lparr>parts := parts p @ parts q\<rparr>)"

text \<open>\<open>p.name\<close>: the last component, empty when there is none.\<close>

definition path_name :: "ppath \<Rightarrow> ustring" where
  "path_name p = (if parts p = [] then [] else last (parts p))"

text \<open>\<open>name.rfind('.')\<close>: the index of the last dot.\<close>

definition rfind_dot :: "ustring \<Rightarrow> nat option" where
  "rfind_dot name =
     (if DOT \<in> set name
      then Some (length name - 1 - length (takeWhile (\<lambda>c. c \<noteq> DOT) (rev name)))
      else None)"

text \<open>
  \<open>p.suffix\<close> and \<open>p.stem\<close>, on the name: the suffix starts at the last dot unless that dot
  is the first or the last character of the name.
\<close>

definition name_suffix :: "ustring \<Rightarrow> ustring" where
  "name_suffix name =
     (case rfind_dot name of
        Some i \<Rightarrow> if 0 < i \<and> i < length name - 1 then drop i name else []
      | None \<Rightarrow> [])"

definition name_stem :: "ustring \<Rightarrow> ustring" where
  "name_stem name =
     (case rfind_dot name of
        Some i \<Rightarrow> if 0 < i \<and> i < length name - 1 then take i name else name
      | None \<Rightarrow> name)"

definition path_stem :: "ppath \<Rightarrow> ustring" where
  "path_stem p = name_stem (path_name p)"

text \<open>
  An exception: one of the two \<open>ValueError\<close>s that \<open>with_suffix\<close> raises, or an exception
  that the environment raises, by its text.
\<close>

datatype exn = InvalidSuffix ustring | EmptyName ppath | EnvError ustring

text \<open>
  \<open>p.with_suffix(suffix)\<close>: the suffix of the name, if it has one, is replaced, else the
  new suffix is appended.
\<close>

definition with_suffix :: "ppath \<Rightarrow> ustring \<Rightarrow> exn + ppath" where
  "with_suffix p suffix =
     (if SLASH \<in> set suffix then Inl (InvalidSuffix suffix)
      else if (suffix \<noteq> [] \<and> hd suffix \<noteq> DOT) \<or> suffix = [DOT] then Inl (InvalidSuffix suffix)
      else let name = path_name p in
        if name = [] then Inl (EmptyName p)
        else let old_suffix = name_suffix name;
                 name' = (if old_suffix = [] then name @ suffix
                          else take (length name - length old_suffix) name @ suffix)
             in Inr (p\<lparr>parts := butlast (parts p) @ [name']\<rparr>))"

text \<open>\<open>str(n)\<close> for a number.\<close>

function str_nat :: "nat \<Rightarrow> ustring" where
  "str_nat n = (if n < 10 then [48 + n] else str_nat (n div 10) @ [48 + n mod 10])"
  by pat_completeness auto
termination
  by (relation "measure id") auto

declare str_nat.simps [simp del]

definition str_int :: "int \<Rightarrow> ustring" where
  "str_int i = (if i < 0 then 45 # str_nat (nat (- i)) else str_nat (nat i))"

lemmas path_eval =
  ustr_def char_defs SLASH_def DOT_def Path_def path_root_def path_str_def joinpath_def path_name_def
  rfind_dot_def name_suffix_def name_stem_def path_stem_def with_suffix_def str_nat.simps str_int_def
  aux_file_def py_replace.simps Let_def


section \<open>The environment\<close>

text \<open>
  What the program does to the file system and to other processes.  An operation that
  can raise is recorded in the trace when it is called, with the exception if it raised;
  every printed line is recorded too.  The queries \<open>exists\<close> and \<open>is_dir\<close> are taken to
  return a value and are not recorded, and \<open>stat\<close> is recorded only when it raises.
\<close>

datatype oper =
    Mkdir ppath
  | System ustring
  | Stat ppath
  | ReadText ppath
  | Copy ppath ppath
  | Move ppath ppath
  | Glob ustring
  | Chdir ppath
  | WriteText ppath ustring

text \<open>\<open>PrintExn prefix e\<close> is the line \<open>prefix\<close> followed by the text of the exception.\<close>

datatype event =
    Print ustring
  | PrintExn ustring exn
  | Did oper
  | Failed oper exn

type_synonym trace = "event list"

text \<open>
  The environment answers every call from the trace of what happened before it: any
  file system and any behaviour of the external tools is an environment.
\<close>

record env =
  os_exists :: "trace \<Rightarrow> ppath \<Rightarrow> bool"
  os_is_dir :: "trace \<Rightarrow> ppath \<Rightarrow> bool"
  os_mkdir :: "trace \<Rightarrow> ppath \<Rightarrow> exn option"
  os_system :: "trace \<Rightarrow> ustring \<Rightarrow> exn + int"
  os_st_size :: "trace \<Rightarrow> ppath \<Rightarrow> exn + nat"
  os_read_text :: "trace \<Rightarrow> ppath \<Rightarrow> exn + ustring"
  os_copy :: "trace \<Rightarrow> ppath \<Rightarrow> ppath \<Rightarrow> exn option"
  os_move :: "trace \<Rightarrow> ppath \<Rightarrow> ppath \<Rightarrow> exn option"
  os_glob :: "trace \<Rightarrow> ustring \<Rightarrow> exn + ppath list"
  os_chdir :: "trace \<Rightarrow> ppath \<Rightarrow> exn option"
  os_write_text :: "trace \<Rightarrow> ppath \<Rightarrow> ustring \<Rightarrow> exn option"

text \<open>What a function does: it returns a value or raises, and leaves a trace.\<close>

datatype 'a result = Returns 'a trace | Raises exn trace

section \<open>copy_figures\<close>

definition extensions :: "ustring list" where
  "extensions = [ustr ''.pdf'', ustr ''.png'', ustr ''.jpg'', ustr ''.jpeg'']"

text \<open>
  The inner loop over the extensions, for one figure: the first candidate that exists is
  copied and the loop is left, by \<open>break\<close> or, when the copy raises, by \<open>return False\<close>;
  \<open>NoMatch\<close> is the \<open>else\<close> branch of the loop.
\<close>

datatype probe = Copied ppath ppath | CopyRaised ppath ppath exn | NoMatch | ProbeRaised exn

fun try_extensions :: "env \<Rightarrow> trace \<Rightarrow> ppath \<Rightarrow> ppath \<Rightarrow> ustring list \<Rightarrow> probe" where
  "try_extensions E tr source_path target_path [] = NoMatch"
| "try_extensions E tr source_path target_path (ext # exts) =
     (case with_suffix source_path ext of
        Inl e \<Rightarrow> ProbeRaised e
      | Inr source_file \<Rightarrow>
          if os_exists E tr source_file then
            (case with_suffix target_path ext of
               Inl e \<Rightarrow> ProbeRaised e
             | Inr target_file \<Rightarrow>
                 (case os_copy E tr source_file target_file of
                    None \<Rightarrow> Copied source_file target_file
                  | Some e \<Rightarrow> CopyRaised source_file target_file e))
          else try_extensions E tr source_path target_path exts)"

text \<open>
  The outer loop, from the figure of index \<open>i\<close> on, with the counter \<open>copied_count\<close>;
  \<open>n_figures\<close> is \<open>len(figures)\<close>.
\<close>

fun copy_loop ::
  "env \<Rightarrow> ppath \<Rightarrow> ppath \<Rightarrow> nat \<Rightarrow> nat \<Rightarrow> nat \<Rightarrow> trace \<Rightarrow> ustring list \<Rightarrow> bool result" where
  "copy_loop E figure_path target_dir n_figures i copied_count tr [] =
     Returns True
       (tr @ [Print (ustr ''Successfully copied '' @ str_nat copied_count @ ustr '' out of ''
                      @ str_nat n_figures @ ustr '' figures'')])"
| "copy_loop E figure_path target_dir n_figures i copied_count tr (figure # rest) =
     (let figure_name = path_stem (Path figure);
          source_path = joinpath figure_path figure_name;
          target_path = joinpath target_dir (ustr ''Fig'' @ str_nat (i + 1))
      in case try_extensions E tr source_path target_path extensions of
           Copied source_file target_file \<Rightarrow>
             copy_loop E figure_path target_dir n_figures (i + 1) (copied_count + 1)
               (tr @ [Did (Copy source_file target_file)]) rest
         | CopyRaised source_file target_file e \<Rightarrow>
             Returns False
               (tr @ [Failed (Copy source_file target_file) e,
                      PrintExn (ustr ''Error copying '' @ path_str source_file @ ustr '': '') e])
         | NoMatch \<Rightarrow>
             copy_loop E figure_path target_dir n_figures (i + 1) copied_count
               (tr @ [Print (ustr ''Warning: No matching file found for '' @ figure_name)]) rest
         | ProbeRaised e \<Rightarrow> Raises e tr)"

definition copy_figures :: "env \<Rightarrow> ustring list \<Rightarrow> ppath \<Rightarrow> ppath \<Rightarrow> trace \<Rightarrow> bool result" where
  "copy_figures E figures figure_path target_dir tr =
     copy_loop E figure_path target_dir (length figures) 0 0 tr figures"

section \<open>validate_inputs\<close>

definition validate_inputs :: "env \<Rightarrow> trace \<Rightarrow> ustring \<Rightarrow> ppath \<Rightarrow> ppath \<Rightarrow> ustring list" where
  "validate_inputs E tr main_name figure_path latexpand_path =
     (if \<not> os_exists E tr (Path main_name)
      then [ustr ''Main LaTeX file '' @ [39] @ main_name @ [39] @ ustr '' does not exist'']
      else [])
     @ (if \<not> os_exists E tr (Path (aux_file main_name))
        then [ustr ''Auxiliary file '' @ [39] @ aux_file main_name @ [39]
              @ ustr '' does not exist. Please compile your LaTeX document first.'']
        else [])
     @ (if \<not> os_exists E tr figure_path
        then [ustr ''Figure path '' @ [39] @ path_str figure_path @ [39] @ ustr '' does not exist'']
        else [])
     @ (if \<not> os_exists E tr latexpand_path
        then [ustr ''Latexpand executable '' @ [39] @ path_str latexpand_path @ [39]
              @ ustr '' does not exist'']
        else if os_is_dir E tr latexpand_path
        then [ustr ''Latexpand path '' @ [39] @ path_str latexpand_path @ [39]
              @ ustr '' is a directory, not an executable file'']
        else [])"


section \<open>run_command_with_check\<close>

definition run_command_with_check :: "env \<Rightarrow> trace \<Rightarrow> ustring \<Rightarrow> ustring \<Rightarrow> bool \<times> trace" where
  "run_command_with_check E tr command description =
     (let tr1 = tr @ [Print (ustr ''Running: '' @ description)] in
      case os_system E tr1 command of
        Inr result \<Rightarrow>
          if result \<noteq> 0
          then (False, tr1 @ [Did (System command),
                              Print (ustr ''Error: '' @ description @ ustr '' failed with exit code ''
                                     @ str_int result)])
          else (True, tr1 @ [Did (System command)])
      | Inl e \<Rightarrow>
          (False, tr1 @ [Failed (System command) e,
                         PrintExn (ustr ''Error running '' @ description @ ustr '': '') e]))"

section \<open>The script\<close>

text \<open>The variables of the script that outlive a stage.\<close>

record state =
  success :: bool
  content :: ustring
  figures :: "ustring list"

definition initial :: state where
  "initial = \<lparr>success = True, content = [], figures = []\<rparr>"

definition target_dir :: ppath where
  "target_dir = Path (ustr ''transformed'')"

definition tmp_file :: ppath where
  "tmp_file = Path (ustr ''tmp.tex'')"

text \<open>A stage runs after another unless that one raised.\<close>

definition then_stage :: "state result \<Rightarrow> (state \<Rightarrow> trace \<Rightarrow> state result) \<Rightarrow> state result" where
  "then_stage r stage = (case r of Returns s tr \<Rightarrow> stage s tr | Raises e tr \<Rightarrow> Raises e tr)"

text \<open>Lines 132 to 136: the target directory.\<close>

definition make_target_dir :: "env \<Rightarrow> state \<Rightarrow> trace \<Rightarrow> state result" where
  "make_target_dir E s tr =
     (if \<not> os_exists E tr target_dir then
        (case os_mkdir E tr target_dir of
           None \<Rightarrow>
             Returns s (tr @ [Did (Mkdir target_dir),
                              Print (ustr ''Created target directory: '' @ path_str target_dir)])
         | Some e \<Rightarrow> Raises e (tr @ [Failed (Mkdir target_dir) e]))
      else Returns s tr)"

text \<open>Lines 138 to 143: the bibliography export, whose failure is only a warning.\<close>

definition bib_command :: "ustring \<Rightarrow> ustring" where
  "bib_command main_name =
     ustr ''bibexport -o '' @ path_str (joinpath target_dir (ustr ''References.bib'')) @ ustr '' ''
     @ aux_file main_name"

definition export_bibliography :: "env \<Rightarrow> ustring \<Rightarrow> state \<Rightarrow> trace \<Rightarrow> state result" where
  "export_bibliography E main_name s tr =
     (case run_command_with_check E tr (bib_command main_name) (ustr ''bibliography export'') of
        (ok, tr1) \<Rightarrow>
          if \<not> ok
          then Returns s (tr1 @ [Print (ustr ''Warning: Bibliography export failed. You may need to create References.bib manually.'')])
          else Returns s tr1)"

text \<open>Lines 145 to 155: the expansion and the check of its output.\<close>

definition latexpand_command :: "ppath \<Rightarrow> ustring \<Rightarrow> ustring" where
  "latexpand_command latexpand_path main_name =
     ustr ''perl '' @ path_str latexpand_path @ ustr '' '' @ main_name @ ustr '' > tmp.tex''"

definition expand_document :: "env \<Rightarrow> ustring \<Rightarrow> ppath \<Rightarrow> state \<Rightarrow> trace \<Rightarrow> state result" where
  "expand_document E main_name latexpand_path s tr =
     (case run_command_with_check E tr (latexpand_command latexpand_path main_name)
             (ustr ''LaTeX expansion'') of
        (ok, tr1) \<Rightarrow>
          if \<not> ok
          then Returns (s\<lparr>success := False\<rparr>) (tr1 @ [Print (ustr ''Error: Failed to merge LaTeX files'')])
          else if \<not> os_exists E tr1 tmp_file
          then Returns (s\<lparr>success := False\<rparr>)
                 (tr1 @ [Print (ustr ''Error: Expanded LaTeX file (tmp.tex) was not created or is empty.'')])
          else (case os_st_size E tr1 tmp_file of
                  Inl e \<Rightarrow> Raises e (tr1 @ [Failed (Stat tmp_file) e])
                | Inr n_bytes \<Rightarrow>
                    if n_bytes = 0
                    then Returns (s\<lparr>success := False\<rparr>)
                           (tr1 @ [Print (ustr ''Error: Expanded LaTeX file (tmp.tex) was not created or is empty.'')])
                    else Returns s tr1))"

text \<open>Lines 157 to 166: the expanded file is read.\<close>

definition read_expanded :: "env \<Rightarrow> state \<Rightarrow> trace \<Rightarrow> state result" where
  "read_expanded E s tr =
     (if success s then
        (case os_read_text E tr tmp_file of
           Inr text_read \<Rightarrow>
             Returns (s\<lparr>content := text_read\<rparr>)
               (tr @ [Did (ReadText tmp_file), Print (ustr ''Successfully read expanded LaTeX file'')])
         | Inl e \<Rightarrow>
             Returns (s\<lparr>success := False\<rparr>)
               (tr @ [Failed (ReadText tmp_file) e,
                      PrintExn (ustr ''Error reading expanded LaTeX file: '') e]))
      else Returns s tr)"

text \<open>Lines 168 to 178: the figures are extracted and copied.\<close>

definition extract_and_copy :: "env \<Rightarrow> ppath \<Rightarrow> state \<Rightarrow> trace \<Rightarrow> state result" where
  "extract_and_copy E figure_path s tr =
     (if success s then
        (let figs = extract_figure_names (content s);
             tr1 = tr @ [Print (ustr ''Found '' @ str_nat (length figs) @ ustr '' figures to copy'')]
         in if figs \<noteq> [] then
              (case copy_figures E figs figure_path target_dir tr1 of
                 Returns ok tr2 \<Rightarrow>
                   if \<not> ok
                   then Returns (s\<lparr>success := False, figures := figs\<rparr>)
                          (tr2 @ [Print (ustr ''Error: Failed to copy all figures'')])
                   else Returns (s\<lparr>figures := figs\<rparr>) tr2
               | Raises e tr2 \<Rightarrow> Raises e tr2)
            else Returns (s\<lparr>figures := figs\<rparr>)
                   (tr1 @ [Print (ustr ''No figures found in the document'')]))
      else Returns s tr)"

text \<open>
  Lines 180 to 197: the expanded file is moved and the class, style and bibliography
  style files are copied; every exception is caught by the stage.
\<close>

fun copy_all :: "env \<Rightarrow> trace \<Rightarrow> ppath list \<Rightarrow> unit result" where
  "copy_all E tr [] = Returns () tr"
| "copy_all E tr (file # files) =
     (case os_copy E tr file target_dir of
        None \<Rightarrow> copy_all E (tr @ [Did (Copy file target_dir)]) files
      | Some e \<Rightarrow> Raises e (tr @ [Failed (Copy file target_dir) e]))"

definition file_types :: "(ustring \<times> ustring) list" where
  "file_types = [(ustr ''*.cls'', ustr ''class''), (ustr ''*.sty'', ustr ''style''),
                 (ustr ''*.bst'', ustr ''bibliography style'')]"

fun copy_style_files :: "env \<Rightarrow> trace \<Rightarrow> (ustring \<times> ustring) list \<Rightarrow> unit result" where
  "copy_style_files E tr [] = Returns () tr"
| "copy_style_files E tr ((pattern, file_type) # others) =
     (case os_glob E tr pattern of
        Inl e \<Rightarrow> Raises e (tr @ [Failed (Glob pattern) e])
      | Inr files \<Rightarrow>
          if files \<noteq> [] then
            (case copy_all E (tr @ [Did (Glob pattern)]) files of
               Returns u tr1 \<Rightarrow>
                 copy_style_files E
                   (tr1 @ [Print (ustr ''Copied '' @ str_nat (length files) @ ustr '' '' @ file_type
                                  @ ustr '' file(s)'')]) others
             | Raises e tr1 \<Rightarrow> Raises e tr1)
          else copy_style_files E (tr @ [Did (Glob pattern)]) others)"

definition move_and_copy_styles :: "env \<Rightarrow> state \<Rightarrow> trace \<Rightarrow> state result" where
  "move_and_copy_styles E s tr =
     (if success s then
        (case os_move E tr tmp_file (joinpath target_dir (ustr ''Main.tex'')) of
           Some e \<Rightarrow>
             Returns (s\<lparr>success := False\<rparr>)
               (tr @ [Failed (Move tmp_file (joinpath target_dir (ustr ''Main.tex''))) e,
                      PrintExn (ustr ''Error moving/copying files: '') e])
         | None \<Rightarrow>
             (case copy_style_files E
                     (tr @ [Did (Move tmp_file (joinpath target_dir (ustr ''Main.tex''))),
                            Print (ustr ''Moved main LaTeX file to target directory'')])
                     file_types of
                Returns u tr1 \<Rightarrow> Returns s tr1
              | Raises e tr1 \<Rightarrow>
                  Returns (s\<lparr>success := False\<rparr>)
                    (tr1 @ [PrintExn (ustr ''Error moving/copying files: '') e])))
      else Returns s tr)"

text \<open>Lines 199 to 209: the working directory is changed and the main file read.\<close>

definition chdir_and_read :: "env \<Rightarrow> state \<Rightarrow> trace \<Rightarrow> state result" where
  "chdir_and_read E s tr =
     (if success s then
        (case os_chdir E tr target_dir of
           Some e \<Rightarrow>
             Returns (s\<lparr>success := False\<rparr>)
               (tr @ [Failed (Chdir target_dir) e,
                      PrintExn (ustr ''Error reading main file in target directory: '') e])
         | None \<Rightarrow>
             (case os_read_text E (tr @ [Did (Chdir target_dir)]) (Path (ustr ''Main.tex'')) of
                Inr text_read \<Rightarrow>
                  Returns (s\<lparr>content := text_read\<rparr>)
                    (tr @ [Did (Chdir target_dir), Did (ReadText (Path (ustr ''Main.tex''))),
                           Print (ustr ''Successfully read main file in target directory'')])
              | Inl e \<Rightarrow>
                  Returns (s\<lparr>success := False\<rparr>)
                    (tr @ [Did (Chdir target_dir), Failed (ReadText (Path (ustr ''Main.tex''))) e,
                           PrintExn (ustr ''Error reading main file in target directory: '') e])))
      else Returns s tr)"

text \<open>Lines 211 to 234: the references are rewritten and the main file written.\<close>

fun rename_figures :: "nat \<Rightarrow> ustring list \<Rightarrow> ustring \<Rightarrow> ustring" where
  "rename_figures i [] text_now = text_now"
| "rename_figures i (figure # rest) text_now =
     rename_figures (i + 1) rest
       (py_replace (path_name (Path figure)) (ustr ''Fig'' @ str_nat (i + 1)) text_now)"

definition rewrite_and_write :: "env \<Rightarrow> state \<Rightarrow> trace \<Rightarrow> state result" where
  "rewrite_and_write E s tr =
     (if success s then
        (let rewritten =
               rewrite_bibliography (strip_graphicspath (rename_figures 0 (figures s) (content s)))
         in case os_write_text E tr (Path (ustr ''Main.tex'')) rewritten of
              None \<Rightarrow>
                Returns (s\<lparr>content := rewritten\<rparr>)
                  (tr @ [Did (WriteText (Path (ustr ''Main.tex'')) rewritten),
                         Print (ustr ''Successfully updated figure references and bibliography path'')])
            | Some e \<Rightarrow>
                Returns (s\<lparr>success := False, content := rewritten\<rparr>)
                  (tr @ [Failed (WriteText (Path (ustr ''Main.tex'')) rewritten) e,
                         PrintExn (ustr ''Error updating LaTeX content: '') e]))
      else Returns s tr)"

text \<open>The stages after the expansion, each behind \<open>if success\<close>.\<close>

definition later_stages :: "env \<Rightarrow> ppath \<Rightarrow> state \<Rightarrow> trace \<Rightarrow> state result" where
  "later_stages E figure_path s tr =
     then_stage (then_stage (then_stage (then_stage
       (read_expanded E s tr)
       (extract_and_copy E figure_path))
       (move_and_copy_styles E))
       (chdir_and_read E))
       (rewrite_and_write E)"

text \<open>The pipeline up to the expansion, and the whole body of the outer \<open>try\<close>.\<close>

definition before_expansion :: "env \<Rightarrow> ustring \<Rightarrow> trace \<Rightarrow> state result" where
  "before_expansion E main_name tr =
     then_stage (make_target_dir E initial tr) (export_bibliography E main_name)"

definition conversion :: "env \<Rightarrow> ustring \<Rightarrow> ppath \<Rightarrow> ppath \<Rightarrow> trace \<Rightarrow> state result" where
  "conversion E main_name figure_path latexpand_path tr =
     then_stage
       (then_stage (before_expansion E main_name tr) (expand_document E main_name latexpand_path))
       (later_stages E figure_path)"

text \<open>
  The handler of the outer \<open>try\<close> and the final report, which give the exit status: the
  script ends with status 0 unless it calls \<open>sys.exit(1)\<close>.
\<close>

definition failure_report :: trace where
  "failure_report =
     [Print (ustr ''CONVERSION FAILED! Please check the errors above and try again.''),
      Print (ustr ''Common solutions:''),
      Print (ustr ''  - Ensure you have compiled your LaTeX document (to generate .aux file)''),
      Print (ustr ''  - Check that the figure path is correct''),
      Print (ustr ''  - Verify the latexpand executable path (should point to the file, not directory)'')]"

definition final_report :: "state result \<Rightarrow> int \<times> trace" where
  "final_report r =
     (case (case r of
              Returns s tr \<Rightarrow> (success s, tr)
            | Raises e tr \<Rightarrow> (False, tr @ [PrintExn (ustr ''Unexpected error during conversion: '') e])) of
        (ok, tr) \<Rightarrow>
          (let tr1 = tr @ [Print (NL # replicate 50 61)] in
           if ok
           then (0, tr1 @ [Print (ustr ''CONVERSION COMPLETE! All files are in the transformed folder.''),
                           Print (ustr ''Now, it is your responsibility to proofread :)'')])
           else (1, tr1 @ failure_report)))"

definition startup_lines :: "ustring \<Rightarrow> ppath \<Rightarrow> ppath \<Rightarrow> trace" where
  "startup_lines main_name figure_path latexpand_path =
     [Print (ustr ''LaTeX Style Converter Starting...''),
      Print (ustr ''Main file: '' @ main_name),
      Print (ustr ''Figure path: '' @ path_str figure_path),
      Print (ustr ''Latexpand path: '' @ path_str latexpand_path),
      Print []]"

text \<open>
  The script, from the parsed arguments: the exit status and the trace.  The two path
  arguments are texts, made paths at lines 107 and 108.
\<close>

definition main :: "env \<Rightarrow> ustring \<Rightarrow> ustring \<Rightarrow> ustring \<Rightarrow> int \<times> trace" where
  "main E main_name figure_path_arg latexpand_path_arg =
     (let figure_path = Path figure_path_arg;
          latexpand_path = Path latexpand_path_arg;
          tr = startup_lines main_name figure_path latexpand_path;
          validation_errors = validate_inputs E tr main_name figure_path latexpand_path
      in if validation_errors \<noteq> [] then
           (1, tr @ [Print (ustr ''Validation errors found:'')]
                  @ map (\<lambda>error. Print (ustr ''  - '' @ error)) validation_errors
                  @ [Print (NL # ustr ''Please fix these issues and try again.'')])
         else
           final_report
             (conversion E main_name figure_path latexpand_path
                (tr @ [Print (ustr ''All inputs validated successfully!''),
                       Print (NL # ustr ''Start converting...'')])))"

section \<open>The auxiliary file\<close>

lemma py_replace_Nil: "old \<noteq> [] \<Longrightarrow> py_replace old new [] = []"
  by (cases old) (simp_all add: py_replace.simps[of _ new "[]"])

lemma py_replace_no_dot:
  "DOT \<notin> set stem \<Longrightarrow>
   py_replace (ustr ''.tex'') new (stem @ ustr ''.tex'') = stem @ new"
proof (induction stem)
  case Nil
  have "strip_prefix (ustr ''.tex'') (ustr ''.tex'') = Some []"
    using strip_prefix_self[of "ustr ''.tex''" "[]"] by simp
  moreover have "ustr ''.tex'' \<noteq> []" by (simp add: ustr_def)
  ultimately show ?case
    by (simp add: py_replace.simps[of "ustr ''.tex''" new "ustr ''.tex''"] py_replace_Nil)
next
  case (Cons c stem)
  then have "c \<noteq> DOT" by auto
  then have "strip_prefix (ustr ''.tex'') (c # stem @ ustr ''.tex'') = None"
    by (auto simp: ustr_def DOT_def)
  moreover have "ustr ''.tex'' \<noteq> []" by (simp add: ustr_def)
  ultimately show ?case using Cons
    by (simp add: py_replace.simps[of "ustr ''.tex''" new "c # stem @ ustr ''.tex''"])
qed

lemma aux_file_plain: "DOT \<notin> set stem \<Longrightarrow> aux_file (stem @ ustr ''.tex'') = stem @ ustr ''.aux''"
  by (simp add: aux_file_def py_replace_no_dot)

text \<open>
  Claim C8.  The auxiliary file is said to be the main document's path with its extension
  \<open>.tex\<close> replaced by \<open>.aux\<close> and the rest of the path unchanged.  The code replaces every
  occurrence of \<open>.tex\<close> in the path: for \<open>my.texts/Main.tex\<close> it derives
  \<open>my.auxts/Main.aux\<close>, where replacing the extension gives \<open>my.texts/Main.aux\<close>.
\<close>

theorem aux_file_replaces_every_occurrence:
  "aux_file (ustr ''my.texts/Main.tex'') = ustr ''my.auxts/Main.aux''
   \<and> with_suffix (Path (ustr ''my.texts/Main.tex'')) (ustr ''.aux'') = Inr (Path (ustr ''my.texts/Main.aux''))
   \<and> Path (aux_file (ustr ''my.texts/Main.tex'')) \<noteq> Path (ustr ''my.texts/Main.aux'')"
  by (simp add: path_eval)

section \<open>The validation\<close>

text \<open>An event that is a printed line: nothing is done to the file system.\<close>

definition is_print :: "event \<Rightarrow> bool" where
  "is_print ev = (case ev of Print line \<Rightarrow> True | PrintExn line e \<Rightarrow> True | _ \<Rightarrow> False)"

lemma is_print_simps [simp]:
  "is_print (Print line)" "is_print (PrintExn line e)" "\<not> is_print (Did op)" "\<not> is_print (Failed op e)"
  by (simp_all add: is_print_def)

lemma startup_lines_print: "list_all is_print (startup_lines main_name figure_path latexpand_path)"
  by (simp add: startup_lines_def)

lemma main_invalid:
  assumes "validate_inputs E (startup_lines main_name (Path fp) (Path lp)) main_name (Path fp) (Path lp) \<noteq> []"
  shows "fst (main E main_name fp lp) = 1" and "list_all is_print (snd (main E main_name fp lp))"
  using assms startup_lines_print[of main_name "Path fp" "Path lp"]
  by (auto simp: main_def Let_def list_all_iff)

text \<open>
  What \<open>validate_inputs\<close> checks, with the auxiliary path as the code derives it
  (\<open>aux_file\<close>, which is the document's companion file only when \<open>.tex\<close> occurs nowhere
  else in the path): the list is empty exactly when the four checks pass, it holds one
  message for each check that fails, and when it is not empty the script exits with
  status 1 and its trace holds printed lines only.
\<close>

lemma validate_inputs_checks:
  "(validate_inputs E tr main_name figure_path latexpand_path = [] \<longleftrightarrow>
      os_exists E tr (Path main_name) \<and> os_exists E tr (Path (aux_file main_name))
      \<and> os_exists E tr figure_path
      \<and> os_exists E tr latexpand_path \<and> \<not> os_is_dir E tr latexpand_path)
   \<and> length (validate_inputs E tr main_name figure_path latexpand_path) =
       (if os_exists E tr (Path main_name) then 0 else 1)
       + (if os_exists E tr (Path (aux_file main_name)) then 0 else 1)
       + (if os_exists E tr figure_path then 0 else 1)
       + (if os_exists E tr latexpand_path \<and> \<not> os_is_dir E tr latexpand_path then 0 else 1)
   \<and> (validate_inputs E (startup_lines main_name (Path fp) (Path lp)) main_name (Path fp) (Path lp) \<noteq> []
        \<longrightarrow> fst (main E main_name fp lp) = 1 \<and> list_all is_print (snd (main E main_name fp lp)))"
proof (intro conjI impI)
  show "validate_inputs E tr main_name figure_path latexpand_path = [] \<longleftrightarrow>
      os_exists E tr (Path main_name) \<and> os_exists E tr (Path (aux_file main_name))
      \<and> os_exists E tr figure_path
      \<and> os_exists E tr latexpand_path \<and> \<not> os_is_dir E tr latexpand_path"
    by (simp add: validate_inputs_def)
  show "length (validate_inputs E tr main_name figure_path latexpand_path) =
       (if os_exists E tr (Path main_name) then 0 else 1)
       + (if os_exists E tr (Path (aux_file main_name)) then 0 else 1)
       + (if os_exists E tr figure_path then 0 else 1)
       + (if os_exists E tr latexpand_path \<and> \<not> os_is_dir E tr latexpand_path then 0 else 1)"
    by (simp add: validate_inputs_def)
qed (simp_all add: main_invalid)

text \<open>An environment that holds the given paths and where every operation succeeds.\<close>

definition plain_env :: "ppath list \<Rightarrow> env" where
  "plain_env present =
     \<lparr>os_exists = (\<lambda>tr p. p \<in> set present),
      os_is_dir = (\<lambda>tr p. False),
      os_mkdir = (\<lambda>tr p. None),
      os_system = (\<lambda>tr command. Inr 0),
      os_st_size = (\<lambda>tr p. Inr 1),
      os_read_text = (\<lambda>tr p. Inr []),
      os_copy = (\<lambda>tr p q. None),
      os_move = (\<lambda>tr p q. None),
      os_glob = (\<lambda>tr pattern. Inr []),
      os_chdir = (\<lambda>tr p. None),
      os_write_text = (\<lambda>tr p written. None)\<rparr>"

definition not_compiled :: env where
  "not_compiled = plain_env [Path (ustr ''Main.tex''), Path (ustr ''../Figures''), Path (ustr ''../latexpand'')]"

lemma validate_inputs_not_compiled:
  "validate_inputs not_compiled
     (startup_lines (ustr ''Main.tex'') (Path (ustr ''../Figures'')) (Path (ustr ''../latexpand'')))
     (ustr ''Main.tex'') (Path (ustr ''../Figures'')) (Path (ustr ''../latexpand''))
   = [ustr ''Auxiliary file '' @ [39] @ ustr ''Main.aux'' @ [39]
        @ ustr '' does not exist. Please compile your LaTeX document first.'']
   \<and> fst (main not_compiled (ustr ''Main.tex'') (ustr ''../Figures'') (ustr ''../latexpand'')) = 1
   \<and> list_all is_print (snd (main not_compiled (ustr ''Main.tex'') (ustr ''../Figures'') (ustr ''../latexpand'')))"
proof -
  have aux: "aux_file (ustr ''Main.tex'') = ustr ''Main.aux''"
    using aux_file_plain[of "ustr ''Main''"] by (simp add: ustr_def DOT_def)
  have v: "validate_inputs not_compiled
     (startup_lines (ustr ''Main.tex'') (Path (ustr ''../Figures'')) (Path (ustr ''../latexpand'')))
     (ustr ''Main.tex'') (Path (ustr ''../Figures'')) (Path (ustr ''../latexpand''))
   = [ustr ''Auxiliary file '' @ [39] @ ustr ''Main.aux'' @ [39]
        @ ustr '' does not exist. Please compile your LaTeX document first.'']"
    unfolding validate_inputs_def aux
    by (simp add: not_compiled_def plain_env_def Path_def path_root_def SLASH_def DOT_def ustr_def)
  show ?thesis
    using validate_inputs_checks[of not_compiled _ "ustr ''Main.tex''" _ _ "ustr ''../Figures''" "ustr ''../latexpand''"] v
    by simp
qed

text \<open>
  A document in a directory whose name holds \<open>.tex\<close>: the document, its companion
  auxiliary file, the figure directory and the expander are all in place.
\<close>

definition dotted_directory :: env where
  "dotted_directory =
     plain_env [Path (ustr ''my.texts/Main.tex''), Path (ustr ''my.texts/Main.aux''),
                Path (ustr ''../Figures''), Path (ustr ''../latexpand'')]"

text \<open>
  Claim C6.  \<open>validate_inputs\<close> is said to return the empty list exactly when the main
  document exists, its companion auxiliary file exists, the figure directory exists and
  the expander path exists and is not a directory.  The code looks for the auxiliary file
  at the path that \<open>str.replace\<close> gives (the defect of claim C8): for the document
  \<open>my.texts/Main.tex\<close> with its companion \<open>my.texts/Main.aux\<close> in place, every one of these
  preconditions holds, and yet \<open>validate_inputs\<close> reports that \<open>my.auxts/Main.aux\<close> does
  not exist and the script exits with status 1.
\<close>

theorem validate_inputs_misses_companion:
  "os_exists dotted_directory tr (Path (ustr ''my.texts/Main.tex''))
   \<and> with_suffix (Path (ustr ''my.texts/Main.tex'')) (ustr ''.aux'') = Inr (Path (ustr ''my.texts/Main.aux''))
   \<and> os_exists dotted_directory tr (Path (ustr ''my.texts/Main.aux''))
   \<and> os_exists dotted_directory tr (Path (ustr ''../Figures''))
   \<and> os_exists dotted_directory tr (Path (ustr ''../latexpand''))
   \<and> \<not> os_is_dir dotted_directory tr (Path (ustr ''../latexpand''))
   \<and> validate_inputs dotted_directory tr (ustr ''my.texts/Main.tex'')
         (Path (ustr ''../Figures'')) (Path (ustr ''../latexpand''))
       = [ustr ''Auxiliary file '' @ [39] @ ustr ''my.auxts/Main.aux'' @ [39]
            @ ustr '' does not exist. Please compile your LaTeX document first.'']
   \<and> fst (main dotted_directory (ustr ''my.texts/Main.tex'') (ustr ''../Figures'') (ustr ''../latexpand'')) = 1"
proof -
  have v: "validate_inputs dotted_directory tr (ustr ''my.texts/Main.tex'')
         (Path (ustr ''../Figures'')) (Path (ustr ''../latexpand''))
       = [ustr ''Auxiliary file '' @ [39] @ ustr ''my.auxts/Main.aux'' @ [39]
            @ ustr '' does not exist. Please compile your LaTeX document first.'']" for tr
    by (simp add: dotted_directory_def plain_env_def validate_inputs_def path_eval)
  have "fst (main dotted_directory (ustr ''my.texts/Main.tex'') (ustr ''../Figures'') (ustr ''../latexpand'')) = 1"
    by (rule main_invalid(1)) (simp add: v)
  moreover have "os_exists dotted_directory tr (Path (ustr ''my.texts/Main.tex''))
   \<and> with_suffix (Path (ustr ''my.texts/Main.tex'')) (ustr ''.aux'') = Inr (Path (ustr ''my.texts/Main.aux''))
   \<and> os_exists dotted_directory tr (Path (ustr ''my.texts/Main.aux''))
   \<and> os_exists dotted_directory tr (Path (ustr ''../Figures''))
   \<and> os_exists dotted_directory tr (Path (ustr ''../latexpand''))
   \<and> \<not> os_is_dir dotted_directory tr (Path (ustr ''../latexpand''))"
    by (simp add: dotted_directory_def plain_env_def path_eval)
  ultimately show ?thesis using v by simp
qed

section \<open>The failure of the expansion\<close>

text \<open>
  The expansion has failed, seen from the trace \<open>tr\<close> at which the stage starts: the
  command returned a status other than 0, or it returned 0 and the merged file is missing
  or has size 0.
\<close>

definition expansion_failed :: "env \<Rightarrow> ustring \<Rightarrow> ppath \<Rightarrow> trace \<Rightarrow> bool" where
  "expansion_failed E main_name latexpand_path tr =
     (let command = latexpand_command latexpand_path main_name;
          tr1 = tr @ [Print (ustr ''Running: '' @ ustr ''LaTeX expansion'')]
      in case os_system E tr1 command of
           Inl e \<Rightarrow> False
         | Inr status \<Rightarrow>
             status \<noteq> 0
             \<or> \<not> os_exists E (tr1 @ [Did (System command)]) tmp_file
             \<or> os_st_size E (tr1 @ [Did (System command)]) tmp_file = Inr 0)"

text \<open>The trace with which the conversion starts, once the inputs are validated.\<close>

definition conversion_start :: "ustring \<Rightarrow> ppath \<Rightarrow> ppath \<Rightarrow> trace" where
  "conversion_start main_name figure_path latexpand_path =
     startup_lines main_name figure_path latexpand_path
     @ [Print (ustr ''All inputs validated successfully!''), Print (NL # ustr ''Start converting...'')]"

lemma make_target_dir_state: "make_target_dir E s tr = Returns s' tr' \<Longrightarrow> s' = s"
  by (auto simp: make_target_dir_def split: if_splits option.splits)

lemma export_bibliography_state: "export_bibliography E main_name s tr = Returns s' tr' \<Longrightarrow> s' = s"
  by (auto simp: export_bibliography_def split: if_splits prod.splits)

lemma before_expansion_state: "before_expansion E main_name tr = Returns s tr' \<Longrightarrow> s = initial"
  by (auto simp: before_expansion_def then_stage_def split: result.splits
      dest!: make_target_dir_state export_bibliography_state)

lemma later_stages_skipped: "\<not> success s \<Longrightarrow> later_stages E figure_path s tr = Returns s tr"
  by (simp add: later_stages_def then_stage_def read_expanded_def extract_and_copy_def
      move_and_copy_styles_def chdir_and_read_def rewrite_and_write_def)

lemma failure_report_print: "list_all is_print failure_report"
  by (simp add: failure_report_def)

lemma final_report_failed:
  "\<not> success s \<Longrightarrow> final_report (Returns s tr) = (1, tr @ Print (NL # replicate 50 61) # failure_report)"
  by (simp add: final_report_def Let_def)

lemma expand_document_failed:
  assumes "expansion_failed E main_name latexpand_path tr"
  shows "\<exists>out. expand_document E main_name latexpand_path s tr
           = Returns (s\<lparr>success := False\<rparr>)
               (tr @ [Print (ustr ''Running: '' @ ustr ''LaTeX expansion''),
                      Did (System (latexpand_command latexpand_path main_name))] @ out)
         \<and> list_all is_print out"
  using assms
  by (auto simp: expansion_failed_def expand_document_def run_command_with_check_def Let_def
      split: sum.splits)

text \<open>
  Claim C7.  Once the expansion tool has been invoked, the run is a failure whenever the
  tool reports a status other than 0, or reports 0 while the temporary merged file is
  missing or has size 0: the script exits with status 1, and after the call of the tool
  its trace holds printed lines only, so that no later stage reads, copies, moves or
  writes anything.
\<close>

theorem expansion_failure_is_fatal:
  assumes "validate_inputs E (startup_lines main_name (Path fp) (Path lp)) main_name (Path fp) (Path lp) = []"
    and "before_expansion E main_name (conversion_start main_name (Path fp) (Path lp)) = Returns s tr"
    and "expansion_failed E main_name (Path lp) tr"
  shows "fst (main E main_name fp lp) = 1
         \<and> (\<exists>out. snd (main E main_name fp lp)
                = tr @ [Print (ustr ''Running: '' @ ustr ''LaTeX expansion''),
                        Did (System (latexpand_command (Path lp) main_name))] @ out
              \<and> list_all is_print out)"
proof -
  obtain out where
    e: "expand_document E main_name (Path lp) s tr
          = Returns (s\<lparr>success := False\<rparr>)
              (tr @ [Print (ustr ''Running: '' @ ustr ''LaTeX expansion''),
                     Did (System (latexpand_command (Path lp) main_name))] @ out)"
    and out: "list_all is_print out"
    using expand_document_failed[OF assms(3)] by blast
  let ?tr = "tr @ [Print (ustr ''Running: '' @ ustr ''LaTeX expansion''),
                   Did (System (latexpand_command (Path lp) main_name))] @ out"
  have "conversion E main_name (Path fp) (Path lp) (conversion_start main_name (Path fp) (Path lp))
      = Returns (s\<lparr>success := False\<rparr>) ?tr"
    by (simp add: conversion_def assms(2) then_stage_def e later_stages_skipped)
  then have m: "main E main_name fp lp = (1, ?tr @ Print (NL # replicate 50 61) # failure_report)"
    using assms(1) by (simp add: main_def Let_def conversion_start_def final_report_failed)
  have "list_all is_print (out @ Print (NL # replicate 50 61) # failure_report)"
    using out failure_report_print by simp
  then show ?thesis using m by auto
qed


text \<open>An environment with every input in place, where the expander exits with status 1.\<close>

definition expander_fails :: env where
  "expander_fails =
     (plain_env [Path (ustr ''Main.tex''), Path (ustr ''Main.aux''), Path (ustr ''../Figures''),
                 Path (ustr ''../latexpand'')])
       \<lparr>os_system := (\<lambda>tr command. if take 4 command = ustr ''perl'' then Inr 256 else Inr 0)\<rparr>"

lemmas script_eval =
  plain_env_def validate_inputs_def startup_lines_def conversion_start_def before_expansion_def
  then_stage_def make_target_dir_def export_bibliography_def run_command_with_check_def
  bib_command_def latexpand_command_def target_dir_def tmp_file_def initial_def

theorem expansion_failure_is_fatal_witness:
  "fst (main expander_fails (ustr ''Main.tex'') (ustr ''../Figures'') (ustr ''../latexpand'')) = 1
   \<and> filter (\<lambda>ev. \<not> is_print ev)
        (snd (main expander_fails (ustr ''Main.tex'') (ustr ''../Figures'') (ustr ''../latexpand'')))
     = [Did (Mkdir target_dir), Did (System (bib_command (ustr ''Main.tex''))),
        Did (System (latexpand_command (Path (ustr ''../latexpand'')) (ustr ''Main.tex'')))]"
proof -
  let ?mn = "ustr ''Main.tex''" and ?fp = "ustr ''../Figures''" and ?lp = "ustr ''../latexpand''"
  let ?tr = "conversion_start ?mn (Path ?fp) (Path ?lp)
      @ [Did (Mkdir target_dir), Print (ustr ''Created target directory: '' @ path_str target_dir),
         Print (ustr ''Running: '' @ ustr ''bibliography export''),
         Did (System (bib_command ?mn))]"
  have v: "validate_inputs expander_fails (startup_lines ?mn (Path ?fp) (Path ?lp)) ?mn (Path ?fp) (Path ?lp) = []"
    by (simp add: expander_fails_def script_eval path_eval)
  have b: "before_expansion expander_fails ?mn (conversion_start ?mn (Path ?fp) (Path ?lp))
      = Returns initial ?tr"
    by (simp add: expander_fails_def script_eval path_eval)
  have f: "expansion_failed expander_fails ?mn (Path ?lp) ?tr"
    by (simp add: expansion_failed_def expander_fails_def script_eval path_eval)
  obtain out where
    m: "snd (main expander_fails ?mn ?fp ?lp)
          = ?tr @ [Print (ustr ''Running: '' @ ustr ''LaTeX expansion''),
                   Did (System (latexpand_command (Path ?lp) ?mn))] @ out"
    and out: "list_all is_print out"
    and st: "fst (main expander_fails ?mn ?fp ?lp) = 1"
    using expansion_failure_is_fatal[OF v b f] by blast
  have "filter (\<lambda>ev. \<not> is_print ev) out = []"
    using out by (simp add: list_all_iff)
  then show ?thesis
    unfolding m using st by (simp add: conversion_start_def startup_lines_def)
qed

section \<open>What copy_figures does\<close>

text \<open>The source path and the target path that \<open>copy_figures\<close> builds for a figure.\<close>

definition source_path_of :: "ppath \<Rightarrow> ustring \<Rightarrow> ppath" where
  "source_path_of figure_path figure = joinpath figure_path (path_stem (Path figure))"

definition target_path_of :: "ppath \<Rightarrow> nat \<Rightarrow> ppath" where
  "target_path_of target i = joinpath target (ustr ''Fig'' @ str_nat (i + 1))"

text \<open>Every one of the four candidates is probed and none exists.\<close>

definition none_exists :: "env \<Rightarrow> trace \<Rightarrow> ppath \<Rightarrow> bool" where
  "none_exists E tr source_path =
     list_all (\<lambda>ext. case with_suffix source_path ext of
                        Inr source_file \<Rightarrow> \<not> os_exists E tr source_file
                      | Inl e \<Rightarrow> False) extensions"

text \<open>The extension of the first candidate that exists, in the order of the probes.\<close>

fun first_existing :: "env \<Rightarrow> trace \<Rightarrow> ppath \<Rightarrow> ustring list \<Rightarrow> ustring option" where
  "first_existing E tr source_path [] = None"
| "first_existing E tr source_path (ext # exts) =
     (case with_suffix source_path ext of
        Inr source_file \<Rightarrow>
          if os_exists E tr source_file then Some ext
          else first_existing E tr source_path exts
      | Inl e \<Rightarrow> None)"

lemma try_extensions_none:
  "list_all (\<lambda>ext. case with_suffix source_path ext of
                        Inr source_file \<Rightarrow> \<not> os_exists E tr source_file
                      | Inl e \<Rightarrow> False) exts
   \<Longrightarrow> try_extensions E tr source_path target_path exts = NoMatch"
  by (induction exts) (auto split: sum.splits)

lemma try_extensions_first:
  "first_existing E tr source_path exts = Some ext \<Longrightarrow>
   with_suffix source_path ext = Inr source_file \<Longrightarrow>
   with_suffix target_path ext = Inr target_file \<Longrightarrow>
   try_extensions E tr source_path target_path exts
     = (case os_copy E tr source_file target_file of
          None \<Rightarrow> Copied source_file target_file
        | Some e \<Rightarrow> CopyRaised source_file target_file e)"
  by (induction exts) (auto split: sum.splits if_splits)

lemma copy_loop_step:
  "copy_loop E figure_path target n_figures i copied_count tr (figure # rest) =
     (case try_extensions E tr (source_path_of figure_path figure) (target_path_of target i) extensions of
        Copied source_file target_file \<Rightarrow>
          copy_loop E figure_path target n_figures (i + 1) (copied_count + 1)
            (tr @ [Did (Copy source_file target_file)]) rest
      | CopyRaised source_file target_file e \<Rightarrow>
          Returns False
            (tr @ [Failed (Copy source_file target_file) e,
                   PrintExn (ustr ''Error copying '' @ path_str source_file @ ustr '': '') e])
      | NoMatch \<Rightarrow>
          copy_loop E figure_path target n_figures (i + 1) copied_count
            (tr @ [Print (ustr ''Warning: No matching file found for '' @ path_stem (Path figure))]) rest
      | ProbeRaised e \<Rightarrow> Raises e tr)"
  by (simp add: source_path_of_def target_path_of_def Let_def)

declare copy_loop.simps(2) [simp del]

text \<open>The four extensions are suffixes that \<open>with_suffix\<close> accepts.\<close>

lemma extensions_valid:
  "ext \<in> set extensions \<Longrightarrow> SLASH \<notin> set ext \<and> ext \<noteq> [] \<and> hd ext = DOT \<and> ext \<noteq> [DOT]"
  by (auto simp: extensions_def ustr_def SLASH_def DOT_def)

lemma with_suffix_named:
  "ext \<in> set extensions \<Longrightarrow> path_name p \<noteq> [] \<Longrightarrow> \<exists>q. with_suffix p ext = Inr q"
  using extensions_valid[of ext] by (auto simp: with_suffix_def Let_def)

text \<open>The target path has the name \<open>Fig\<close> followed by the number.\<close>

lemma str_nat_digits: "c \<in> set (str_nat n) \<Longrightarrow> 48 \<le> c \<and> c \<le> 57"
proof (induction n arbitrary: c rule: str_nat.induct)
  case (1 n)
  show ?case
  proof (cases "n < 10")
    case True
    then show ?thesis using 1(2) by (simp add: str_nat.simps[of n])
  next
    case False
    then have "c \<in> set (str_nat (n div 10)) \<or> c = 48 + n mod 10"
      using 1(2) by (auto simp: str_nat.simps[of n])
    then show ?thesis using 1(1)[OF False] by auto
  qed
qed

lemma split_on_absent: "sep \<notin> set s \<Longrightarrow> split_on sep s = [s]"
  by (induction s) auto

lemma Path_single:
  assumes "SLASH \<notin> set key" and "key \<noteq> []" and "key \<noteq> [DOT]"
  shows "Path key = \<lparr>root = [], parts = [key]\<rparr>"
proof -
  have "hd key \<noteq> SLASH" using assms(1,2) by (cases key) auto
  then have "dropWhile (\<lambda>c. c = SLASH) key = key" using assms(2) by (cases key) auto
  then show ?thesis
    using assms \<open>hd key \<noteq> SLASH\<close> by (simp add: Path_def path_root_def split_on_absent)
qed

lemma Fig_key:
  "SLASH \<notin> set (ustr ''Fig'' @ str_nat k)" "DOT \<notin> set (ustr ''Fig'' @ str_nat k)"
  "ustr ''Fig'' @ str_nat k \<noteq> []" "ustr ''Fig'' @ str_nat k \<noteq> [DOT]"
  using str_nat_digits[of SLASH k] str_nat_digits[of DOT k]
  by (auto simp: ustr_def SLASH_def DOT_def)

lemma target_path_of_eq:
  "target_path_of target i = target\<lparr>parts := parts target @ [ustr ''Fig'' @ str_nat (i + 1)]\<rparr>"
  by (simp add: target_path_of_def joinpath_def Path_single[OF Fig_key(1,3,4)])

lemma name_suffix_no_dot: "DOT \<notin> set name \<Longrightarrow> name_suffix name = []"
  by (simp add: name_suffix_def rfind_dot_def)

lemma target_file_eq:
  assumes "ext \<in> set extensions"
  shows "with_suffix (target_path_of target i) ext
         = Inr (target\<lparr>parts := parts target @ [ustr ''Fig'' @ str_nat (i + 1) @ ext]\<rparr>)"
  using extensions_valid[OF assms] Fig_key(3)[of "i + 1"]
  by (simp add: with_suffix_def target_path_of_eq path_name_def Let_def
      name_suffix_no_dot[OF Fig_key(2)])

lemma first_existing_mem: "first_existing E tr p exts = Some ext \<Longrightarrow> ext \<in> set exts"
  by (induction exts) (auto split: sum.splits if_splits)

lemma first_existing_source:
  "first_existing E tr p exts = Some ext \<Longrightarrow> \<exists>q. with_suffix p ext = Inr q \<and> os_exists E tr q"
  by (induction exts) (auto split: sum.splits if_splits)


lemma try_extensions_without_raise:
  assumes "\<forall>src dst. os_copy E tr src dst = None"
    and "path_name source_path \<noteq> []" and "path_name target_path \<noteq> []"
    and "set exts \<subseteq> set extensions"
  shows "try_extensions E tr source_path target_path exts = NoMatch
         \<or> (\<exists>sf tf. try_extensions E tr source_path target_path exts = Copied sf tf)"
  using assms(4)
proof (induction exts)
  case Nil
  show ?case by simp
next
  case (Cons ext exts)
  then have ext: "ext \<in> set extensions" by simp
  obtain sf where sf: "with_suffix source_path ext = Inr sf"
    using with_suffix_named[OF ext assms(2)] by blast
  obtain tf where tf: "with_suffix target_path ext = Inr tf"
    using with_suffix_named[OF ext assms(3)] by blast
  show ?case using Cons sf tf assms(1) by simp
qed

lemma target_path_named: "path_name (target_path_of target i) \<noteq> []"
  using Fig_key(3)[of "i + 1"] by (simp add: target_path_of_eq path_name_def)

lemma copy_loop_true:
  assumes "\<forall>tr src dst. os_copy E tr src dst = None"
  shows "\<forall>f \<in> set figs. path_name (source_path_of figure_path f) \<noteq> [] \<Longrightarrow>
         \<exists>tr'. copy_loop E figure_path target n_figures i copied_count tr figs = Returns True tr'"
proof (induction figs arbitrary: i copied_count tr)
  case Nil
  show ?case by simp
next
  case (Cons figure figs)
  have "try_extensions E tr (source_path_of figure_path figure) (target_path_of target i) extensions = NoMatch
        \<or> (\<exists>sf tf. try_extensions E tr (source_path_of figure_path figure) (target_path_of target i) extensions
              = Copied sf tf)"
    using assms Cons.prems by (intro try_extensions_without_raise) (simp_all add: target_path_named)
  then show ?case
  proof
    assume "try_extensions E tr (source_path_of figure_path figure) (target_path_of target i) extensions = NoMatch"
    then show ?thesis
      using Cons.IH[of "i + 1" copied_count] Cons.prems by (simp add: copy_loop_step)
  next
    assume "\<exists>sf tf. try_extensions E tr (source_path_of figure_path figure) (target_path_of target i) extensions
              = Copied sf tf"
    then show ?thesis
      using Cons.IH[of "i + 1" "copied_count + 1"] Cons.prems by (auto simp: copy_loop_step)
  qed
qed

text \<open>
  A figure whose first existing candidate is copied: the target is \<open>Fig\<close>, the number of
  the figure counted from 1, and the extension of that candidate, in the target directory.
\<close>

lemma copy_loop_copies:
  assumes "first_existing E tr (source_path_of figure_path figure) extensions = Some ext"
    and "with_suffix (source_path_of figure_path figure) ext = Inr source_file"
    and "os_copy E tr source_file
           (target\<lparr>parts := parts target @ [ustr ''Fig'' @ str_nat (i + 1) @ ext]\<rparr>) = None"
  shows "copy_loop E figure_path target n_figures i copied_count tr (figure # rest)
         = copy_loop E figure_path target n_figures (i + 1) (copied_count + 1)
             (tr @ [Did (Copy source_file
                       (target\<lparr>parts := parts target @ [ustr ''Fig'' @ str_nat (i + 1) @ ext]\<rparr>))]) rest"
  using try_extensions_first[OF assms(1,2) target_file_eq[OF first_existing_mem[OF assms(1)], of target i]]
    assms(3)
  by (simp add: copy_loop_step)

text \<open>
  What \<open>copy_figures\<close> does where the candidates can be formed, that is where the source
  path of a reference has a name, so that \<open>with_suffix\<close> does not raise.  A reference
  for which each of the four candidates is probed and none exists costs a warning, and
  the loop goes on with the remaining references; as long as no copy raises, the function
  returns \<open>True\<close> whatever is missing.  When the copy of the first existing candidate
  raises, it returns \<open>False\<close> at once: the trace ends with that copy and the error line,
  whatever references remain.
\<close>

lemma copy_figures_missing_and_failing:
  "(none_exists E tr (source_path_of figure_path figure) \<longrightarrow>
      copy_loop E figure_path target n_figures i copied_count tr (figure # rest)
      = copy_loop E figure_path target n_figures (i + 1) copied_count
          (tr @ [Print (ustr ''Warning: No matching file found for '' @ path_stem (Path figure))]) rest)
   \<and> ((\<forall>tr' src dst. os_copy E tr' src dst = None)
        \<and> (\<forall>f \<in> set figs. path_name (source_path_of figure_path f) \<noteq> [])
       \<longrightarrow> (\<exists>tr'. copy_figures E figs figure_path target tr = Returns True tr'))
   \<and> (first_existing E tr (source_path_of figure_path figure) extensions = Some ext
        \<and> with_suffix (source_path_of figure_path figure) ext = Inr source_file
        \<and> with_suffix (target_path_of target i) ext = Inr target_file
        \<and> os_copy E tr source_file target_file = Some e
       \<longrightarrow> copy_loop E figure_path target n_figures i copied_count tr (figure # rest)
           = Returns False
               (tr @ [Failed (Copy source_file target_file) e,
                      PrintExn (ustr ''Error copying '' @ path_str source_file @ ustr '': '') e]))"
proof (intro conjI impI)
  assume "none_exists E tr (source_path_of figure_path figure)"
  then have "try_extensions E tr (source_path_of figure_path figure) (target_path_of target i) extensions = NoMatch"
    unfolding none_exists_def by (rule try_extensions_none)
  then show "copy_loop E figure_path target n_figures i copied_count tr (figure # rest)
      = copy_loop E figure_path target n_figures (i + 1) copied_count
          (tr @ [Print (ustr ''Warning: No matching file found for '' @ path_stem (Path figure))]) rest"
    by (simp add: copy_loop_step)
next
  assume "(\<forall>tr' src dst. os_copy E tr' src dst = None)
        \<and> (\<forall>f \<in> set figs. path_name (source_path_of figure_path f) \<noteq> [])"
  then show "\<exists>tr'. copy_figures E figs figure_path target tr = Returns True tr'"
    unfolding copy_figures_def using copy_loop_true[of E figs figure_path] by blast
next
  assume a: "first_existing E tr (source_path_of figure_path figure) extensions = Some ext
        \<and> with_suffix (source_path_of figure_path figure) ext = Inr source_file
        \<and> with_suffix (target_path_of target i) ext = Inr target_file
        \<and> os_copy E tr source_file target_file = Some e"
  then have "try_extensions E tr (source_path_of figure_path figure) (target_path_of target i) extensions
      = CopyRaised source_file target_file e"
    using try_extensions_first[of E tr "source_path_of figure_path figure" extensions ext source_file
        "target_path_of target i" target_file]
    by simp
  then show "copy_loop E figure_path target n_figures i copied_count tr (figure # rest)
           = Returns False
               (tr @ [Failed (Copy source_file target_file) e,
                      PrintExn (ustr ''Error copying '' @ path_str source_file @ ustr '': '') e])"
    by (simp add: copy_loop_step)
qed


lemmas copy_eval =
  copy_figures_def copy_loop.simps extensions_def plain_env_def target_dir_def none_exists_def
  source_path_of_def target_path_of_def path_eval

text \<open>
  A figure directory that holds \<open>demo.png\<close> and \<open>locked.pdf\<close>, where copying
  \<open>locked.pdf\<close> is refused.
\<close>

definition figure_dir :: env where
  "figure_dir =
     (plain_env [Path (ustr ''../Figures/demo.png''), Path (ustr ''../Figures/locked.pdf'')])
       \<lparr>os_copy := (\<lambda>tr src dst. if src = Path (ustr ''../Figures/locked.pdf'')
                                  then Some (EnvError (ustr ''Permission denied'')) else None)\<rparr>"

lemma copy_figures_missing_and_failing_example:
  "copy_figures figure_dir [ustr ''missing'', ustr ''plots/demo.png''] (Path (ustr ''../Figures'')) target_dir []
     = Returns True
         [Print (ustr ''Warning: No matching file found for missing''),
          Did (Copy (Path (ustr ''../Figures/demo.png'')) (Path (ustr ''transformed/Fig2.png''))),
          Print (ustr ''Successfully copied 1 out of 2 figures'')]
   \<and> copy_figures figure_dir [ustr ''locked'', ustr ''plots/demo.png''] (Path (ustr ''../Figures'')) target_dir []
     = Returns False
         [Failed (Copy (Path (ustr ''../Figures/locked.pdf'')) (Path (ustr ''transformed/Fig1.pdf'')))
            (EnvError (ustr ''Permission denied'')),
          PrintExn (ustr ''Error copying ../Figures/locked.pdf: '') (EnvError (ustr ''Permission denied''))]
   \<and> (\<exists>tr'. copy_figures (plain_env []) [ustr ''missing'', ustr ''plots/demo.png'']
                (Path (ustr ''../Figures'')) target_dir [] = Returns True tr')"
proof -
  let ?fp = "Path (ustr ''../Figures'')"
  note claim = copy_figures_missing_and_failing
  have a1: "none_exists figure_dir [] (source_path_of ?fp (ustr ''missing''))"
    by (simp add: figure_dir_def copy_eval)
  have a2: "copy_loop figure_dir ?fp target_dir (length [ustr ''missing'', ustr ''plots/demo.png'']) (0 + 1) 0
              [Print (ustr ''Warning: No matching file found for '' @ path_stem (Path (ustr ''missing'')))]
              [ustr ''plots/demo.png'']
            = Returns True
                [Print (ustr ''Warning: No matching file found for missing''),
                 Did (Copy (Path (ustr ''../Figures/demo.png'')) (Path (ustr ''transformed/Fig2.png''))),
                 Print (ustr ''Successfully copied 1 out of 2 figures'')]"
    by (simp add: figure_dir_def copy_eval)
  have a: "copy_figures figure_dir [ustr ''missing'', ustr ''plots/demo.png''] ?fp target_dir []
     = Returns True
         [Print (ustr ''Warning: No matching file found for missing''),
          Did (Copy (Path (ustr ''../Figures/demo.png'')) (Path (ustr ''transformed/Fig2.png''))),
          Print (ustr ''Successfully copied 1 out of 2 figures'')]"
    using claim[of figure_dir "[]" ?fp "ustr ''missing''" target_dir
        "length [ustr ''missing'', ustr ''plots/demo.png'']" 0 0 "[ustr ''plots/demo.png'']"] a1 a2
    by (simp add: copy_figures_def)
  have c1: "first_existing figure_dir [] (source_path_of ?fp (ustr ''locked'')) extensions = Some (ustr ''.pdf'')"
    by (simp add: figure_dir_def copy_eval)
  have c2: "with_suffix (source_path_of ?fp (ustr ''locked'')) (ustr ''.pdf'') = Inr (Path (ustr ''../Figures/locked.pdf''))"
    by (simp add: copy_eval)
  have c3: "with_suffix (target_path_of target_dir 0) (ustr ''.pdf'') = Inr (Path (ustr ''transformed/Fig1.pdf''))"
    by (simp add: copy_eval)
  have c4: "os_copy figure_dir [] (Path (ustr ''../Figures/locked.pdf'')) (Path (ustr ''transformed/Fig1.pdf''))
      = Some (EnvError (ustr ''Permission denied''))"
    by (simp add: figure_dir_def plain_env_def)
  have c5: "path_str (Path (ustr ''../Figures/locked.pdf'')) = ustr ''../Figures/locked.pdf''"
    by (simp add: path_eval)
  have c: "copy_figures figure_dir [ustr ''locked'', ustr ''plots/demo.png''] ?fp target_dir []
     = Returns False
         [Failed (Copy (Path (ustr ''../Figures/locked.pdf'')) (Path (ustr ''transformed/Fig1.pdf'')))
            (EnvError (ustr ''Permission denied'')),
          PrintExn (ustr ''Error copying ../Figures/locked.pdf: '') (EnvError (ustr ''Permission denied''))]"
    using claim[of figure_dir "[]" ?fp "ustr ''locked''" target_dir
        "length [ustr ''locked'', ustr ''plots/demo.png'']" 0 0 "[ustr ''plots/demo.png'']" _
        "ustr ''.pdf''" "Path (ustr ''../Figures/locked.pdf'')" "Path (ustr ''transformed/Fig1.pdf'')"
        "EnvError (ustr ''Permission denied'')"] c1 c2 c3 c4 c5
    by (simp add: copy_figures_def ustr_def)
  have b1: "\<forall>tr' src dst. os_copy (plain_env []) tr' src dst = None"
    by (simp add: plain_env_def)
  have b2: "\<forall>f \<in> set [ustr ''missing'', ustr ''plots/demo.png'']. path_name (source_path_of ?fp f) \<noteq> []"
    by (simp add: copy_eval)
  have b: "\<exists>tr'. copy_figures (plain_env []) [ustr ''missing'', ustr ''plots/demo.png''] ?fp target_dir []
      = Returns True tr'"
    using claim[where E = "plain_env []" and figure_path = ?fp and target = target_dir and tr = "[]"
        and figs = "[ustr ''missing'', ustr ''plots/demo.png'']"] b1 b2
    by blast
  show ?thesis using a c b by blast
qed

text \<open>
  Claim C5.  \<open>copy_figures\<close> is said to treat every reference for which none of the four
  extensions exists as a warning for that reference, to go on with the others and to
  return \<open>True\<close>, for every list of references.  The candidates are built by
  \<open>with_suffix\<close> at line 36, outside the \<open>try\<close>, and \<open>with_suffix\<close> raises \<open>ValueError\<close> for a
  path without a name: for the references \<open>missing\<close> and the empty reference (that of
  \<^verbatim>\<open>\includegraphics{}\<close>) with the figure path \<open>.\<close>, nothing exists under any extension, and
  after the warning for the first reference \<open>copy_figures\<close> raises instead of warning
  and returning \<open>True\<close>.
\<close>

theorem copy_figures_empty_reference:
  "extract_figure_names (BSLASH # ustr ''includegraphics{}'') = [[]]
   \<and> copy_figures (plain_env []) [ustr ''missing'', []] (Path (ustr ''.'')) target_dir []
       = Raises (EmptyName (Path (ustr ''.'')))
           [Print (ustr ''Warning: No matching file found for missing'')]"
  by (simp add: copy_eval extract_eval)

text \<open>
  Claim C2.  The extension is said to be found by probing the figure directory for the
  reference's base name with each of the four extensions, so that a base name present
  under exactly one of them gives exactly one target file.  The code builds a candidate
  with \<open>with_suffix\<close>, which replaces the part of the base name after its last dot: for
  the reference \<open>fig.v2.png\<close>, of base name \<open>fig.v2\<close>, it probes \<open>fig.pdf\<close>, \<open>fig.png\<close>,
  \<open>fig.jpg\<close> and \<open>fig.jpeg\<close>.  With \<open>fig.v2.png\<close> alone in the figure directory nothing
  is copied, and with \<open>fig.png\<close> beside it that other file is copied as \<open>Fig1.png\<close>.
\<close>

theorem copy_figures_dotted_base_name:
  "path_stem (Path (ustr ''fig.v2.png'')) = ustr ''fig.v2''
   \<and> copy_figures (plain_env [Path (ustr ''../Figures/fig.v2.png'')]) [ustr ''fig.v2.png'']
         (Path (ustr ''../Figures'')) target_dir []
       = Returns True
           [Print (ustr ''Warning: No matching file found for fig.v2''),
            Print (ustr ''Successfully copied 0 out of 1 figures'')]
   \<and> copy_figures (plain_env [Path (ustr ''../Figures/fig.v2.png''), Path (ustr ''../Figures/fig.png'')])
         [ustr ''fig.v2.png''] (Path (ustr ''../Figures'')) target_dir []
       = Returns True
           [Did (Copy (Path (ustr ''../Figures/fig.png'')) (Path (ustr ''transformed/Fig1.png''))),
            Print (ustr ''Successfully copied 1 out of 1 figures'')]"
  by (simp add: copy_eval)


end
